theory Spec2Isabelle
  imports Complex_Main "HOL-Library.Multiset" "HOL-Library.Sublist"
begin

section \<open>SwiftStock: data model\<close>

text \<open>
  The repository holds a synthetic inventory generator
  (\<^verbatim>\<open>data_ingestion/inventory_data_generator.py\<close>) and two dashboards
  (\<^verbatim>\<open>streamlit_app.py\<close>, called the command-centre app below, and
  \<^verbatim>\<open>streamlit_mvp/streamlit_app.py\<close>, called the MVP app). Tables are lists of
  rows in the order the engine scans them; columns are never NULL. Stock figures are
  Python and SQL integers (\<open>int\<close>), coordinates and distances are idealised as
  \<open>real\<close>.
\<close>

type_synonym geography = "real \<times> real"

text \<open>\<^verbatim>\<open>ST_MAKEPOINT(longitude, latitude)\<close>\<close>

definition ST_MAKEPOINT :: "real \<Rightarrow> real \<Rightarrow> geography" where
  "ST_MAKEPOINT lon lat = (lon, lat)"

text \<open>The columns of \<^verbatim>\<open>hospitals.csv\<close>; the FACILITIES table adds GEO_POINT.\<close>

record facility =
  FACILITY_ID :: string
  FACILITY_NAME :: string
  LATITUDE :: real
  LONGITUDE :: real

record geo_facility = facility +
  GEO_POINT :: geography

text \<open>
  The columns of the generated CSV, which is what INVENTORY_DAILY holds;
  INVENTORY_DAILY_PREDICTED adds the two forecast columns the MVP app selects.
\<close>

record inventory =
  RECORD_ID :: string
  DATE :: string
  FACILITY_ID :: string
  ITEM_NAME :: string
  CATEGORY :: string
  OPENING_STOCK :: int
  RECEIVED_QTY :: int
  ISSUED_QTY :: int
  CLOSING_STOCK :: int
  LEAD_TIME_DAYS :: int
  CRITICALITY_LEVEL :: string

record inventory_predicted = inventory +
  PREDICTED_STOCKOUT_DAYS :: real
  AVG_DAILY_USAGE :: real

text \<open>The row type both \<^verbatim>\<open>find_nearest_neighbors\<close> queries select.\<close>

record neighbor_match =
  SAVIOR_NAME :: string
  SAVIOR_LAT :: real
  SAVIOR_LON :: real
  AVAILABLE_STOCK :: int
  DISTANCE_KM :: real

datatype exn = StoreError string | IndexError | NameError | FileNotFoundError

text \<open>
  The hosted warehouse behind \<^verbatim>\<open>session.sql(...)\<close>: its tables, its geodesic
  distance function (metres), whether a statement sent to it raises, and what it answers
  to a neighbour statement whose condition lies outside the part of its dialect that is
  modelled below.
\<close>

record session =
  FACILITIES :: "geo_facility list"
  INVENTORY_DAILY :: "inventory list"
  INVENTORY_DAILY_PREDICTED :: "inventory_predicted list"
  ST_DISTANCE :: "geography \<Rightarrow> geography \<Rightarrow> real"
  fault :: "exn option"
  other_statement :: "string \<Rightarrow> exn + neighbor_match list"

section \<open>The neighbour queries\<close>

text \<open>\<^verbatim>\<open>ROUND(x, 1)\<close>: one decimal place, halves away from zero.\<close>

definition ROUND1 :: "real \<Rightarrow> real" where
  "ROUND1 x = (if 0 \<le> x then of_int \<lfloor>x * 10 + 1 / 2\<rfloor> / 10
               else - (of_int \<lfloor>- x * 10 + 1 / 2\<rfloor> / 10))"

text \<open>
  Command-centre app, \<^verbatim>\<open>find_nearest_neighbors\<close>. The statement is an f-string: its
  text is fixed except for the WHERE condition, into which both arguments are pasted
  between single quotes. The fixed text around the condition holds no quote.
\<close>

definition app_condition :: "string \<Rightarrow> string \<Rightarrow> string" where
  "app_condition victim_id item_name =
     ''source.FACILITY_ID = '' @ CHR 0x27 # victim_id @ CHR 0x27 # CHR 0x0A #
     ''      AND inv.ITEM_NAME = '' @ CHR 0x27 # item_name @ CHR 0x27 # CHR 0x0A #
     ''      AND inv.CLOSING_STOCK > 100 ''"

text \<open>
  How the store reads the text of a condition. Blanks and line breaks separate tokens; a
  word is made of letters, digits, dots and underscores; a string literal runs from a
  quote to the next quote that is not doubled, and a doubled quote inside it stands for
  one quote. A literal still open where the text ends makes the statement fail to
  compile, since no quote follows in the fixed text. Backslashes and all other characters
  are outside the part of the dialect modelled here (\<open>Unsupported\<close>).
\<close>

datatype token = Word string | Sym char | Lit string

datatype lexed = Tokens "token list" | Unterminated | Unsupported

datatype mode = Outside | In_word string | In_lit string | Lit_quote string

definition is_space :: "char \<Rightarrow> bool" where
  "is_space c = (c = CHR '' '' \<or> c = CHR 0x0A)"

definition word_char :: "char \<Rightarrow> bool" where
  "word_char c =
     (c \<in> set ''ABCDEFGHIJKLMNOPQRSTUVWXYZabcdefghijklmnopqrstuvwxyz0123456789_.'')"

definition sym_char :: "char \<Rightarrow> bool" where
  "sym_char c = (c = CHR ''='' \<or> c = CHR ''>'')"

fun emit :: "token \<Rightarrow> lexed \<Rightarrow> lexed" where
  "emit t (Tokens ts) = Tokens (t # ts)"
| "emit t Unterminated = Unterminated"
| "emit t Unsupported = Unsupported"

fun scan :: "mode \<Rightarrow> string \<Rightarrow> lexed" where
  "scan Outside [] = Tokens []"
| "scan (In_word w) [] = Tokens [Word w]"
| "scan (In_lit l) [] = Unterminated"
| "scan (Lit_quote l) [] = Tokens [Lit l]"
| "scan Outside (c # cs) =
     (if is_space c then scan Outside cs
      else if c = CHR 0x27 then scan (In_lit []) cs
      else if word_char c then scan (In_word [c]) cs
      else if sym_char c then emit (Sym c) (scan Outside cs)
      else Unsupported)"
| "scan (In_word w) (c # cs) =
     (if word_char c then scan (In_word (w @ [c])) cs
      else if is_space c then emit (Word w) (scan Outside cs)
      else if c = CHR 0x27 then emit (Word w) (scan (In_lit []) cs)
      else if sym_char c then emit (Word w) (emit (Sym c) (scan Outside cs))
      else Unsupported)"
| "scan (In_lit l) (c # cs) =
     (if c = CHR 0x27 then scan (Lit_quote l) cs
      else if c = CHR 0x5C then Unsupported
      else scan (In_lit (l @ [c])) cs)"
| "scan (Lit_quote l) (c # cs) =
     (if c = CHR 0x27 then scan (In_lit (l @ [c])) cs
      else if is_space c then emit (Lit l) (scan Outside cs)
      else if word_char c then emit (Lit l) (scan (In_word [c]) cs)
      else if sym_char c then emit (Lit l) (emit (Sym c) (scan Outside cs))
      else Unsupported)"

text \<open>
  The conditions modelled: comparisons joined by AND, those joined by OR, with AND
  binding tighter. A comparison is \<open>=\<close> between two texts or \<open>>\<close> between two numbers;
  an operand is a string literal, an unsigned whole number, or one of the three columns
  the statement's own condition names. Anything else is left to the store.
\<close>

datatype text_operand = Text string | Source_facility_id | Inv_item_name

datatype number_operand = Number int | Inv_closing_stock

datatype comparison =
    Text_equal text_operand text_operand
  | Number_greater number_operand number_operand

type_synonym condition = "comparison list list"

fun split_on :: "'a \<Rightarrow> 'a list \<Rightarrow> 'a list list" where
  "split_on d [] = [[]]"
| "split_on d (x # xs) =
     (if x = d then [] # split_on d xs
      else (case split_on d xs of
              [] \<Rightarrow> [[x]]
            | g # gs \<Rightarrow> (x # g) # gs))"

fun number_of :: "string \<Rightarrow> int \<Rightarrow> int option" where
  "number_of [] n = Some n"
| "number_of (c # cs) n =
     (case map_of (zip ''0123456789'' [0, 1, 2, 3, 4, 5, 6, 7, 8, 9]) c of
        None \<Rightarrow> None
      | Some d \<Rightarrow> number_of cs (10 * n + d))"

fun text_operand_of :: "token \<Rightarrow> text_operand option" where
  "text_operand_of (Lit l) = Some (Text l)"
| "text_operand_of (Word w) =
     (if w = ''source.FACILITY_ID'' then Some Source_facility_id
      else if w = ''inv.ITEM_NAME'' then Some Inv_item_name
      else None)"
| "text_operand_of (Sym c) = None"

fun number_operand_of :: "token \<Rightarrow> number_operand option" where
  "number_operand_of (Word w) =
     (if w = ''inv.CLOSING_STOCK'' then Some Inv_closing_stock
      else map_option Number (number_of w 0))"
| "number_operand_of (Lit l) = None"
| "number_operand_of (Sym c) = None"

fun comparison_of :: "token list \<Rightarrow> comparison option" where
  "comparison_of [a, Sym c, b] =
     (if c = CHR ''=''
      then (case (text_operand_of a, text_operand_of b) of
              (Some x, Some y) \<Rightarrow> Some (Text_equal x y)
            | _ \<Rightarrow> None)
      else (case (number_operand_of a, number_operand_of b) of
              (Some x, Some y) \<Rightarrow> Some (Number_greater x y)
            | _ \<Rightarrow> None))"
| "comparison_of _ = None"

definition condition_of :: "token list \<Rightarrow> condition option" where
  "condition_of ts =
     those (map (\<lambda>conjunction. those (map comparison_of (split_on (Word ''AND'') conjunction)))
              (split_on (Word ''OR'') ts))"

datatype reading = Condition condition | Compile_error | Other_statement

definition read_condition :: "string \<Rightarrow> reading" where
  "read_condition text =
     (case scan Outside text of
        Unterminated \<Rightarrow> Compile_error
      | Unsupported \<Rightarrow> Other_statement
      | Tokens ts \<Rightarrow>
          (case condition_of ts of
             None \<Rightarrow> Other_statement
           | Some c \<Rightarrow> Condition c))"

text \<open>The value of a condition on one row of the join.\<close>

type_synonym joined_row = "geo_facility \<times> geo_facility \<times> inventory"

fun text_value :: "text_operand \<Rightarrow> joined_row \<Rightarrow> string" where
  "text_value (Text l) t = l"
| "text_value Source_facility_id (source, neighbor, inv_row) = facility.FACILITY_ID source"
| "text_value Inv_item_name (source, neighbor, inv_row) = ITEM_NAME inv_row"

fun number_value :: "number_operand \<Rightarrow> joined_row \<Rightarrow> int" where
  "number_value (Number n) t = n"
| "number_value Inv_closing_stock (source, neighbor, inv_row) = CLOSING_STOCK inv_row"

fun holds :: "comparison \<Rightarrow> joined_row \<Rightarrow> bool" where
  "holds (Text_equal x y) t = (text_value x t = text_value y t)"
| "holds (Number_greater x y) t = (number_value x t > number_value y t)"

definition satisfies :: "condition \<Rightarrow> joined_row \<Rightarrow> bool" where
  "satisfies cond t = list_ex (list_all (\<lambda>c. holds c t)) cond"

text \<open>The FROM / JOIN / WHERE part of the statement, one triple per joined row.\<close>

definition app_joined :: "session \<Rightarrow> condition \<Rightarrow> joined_row list" where
  "app_joined s cond =
     [(source, neighbor, inv_row).
        source \<leftarrow> FACILITIES s,
        neighbor \<leftarrow> FACILITIES s,
        facility.FACILITY_ID source \<noteq> facility.FACILITY_ID neighbor,
        inv_row \<leftarrow> INVENTORY_DAILY s,
        facility.FACILITY_ID neighbor = inventory.FACILITY_ID inv_row,
        satisfies cond (source, neighbor, inv_row)]"

definition app_select :: "session \<Rightarrow> joined_row \<Rightarrow> neighbor_match" where
  "app_select s t =
     (case t of (source, neighbor, inv_row) \<Rightarrow>
        \<lparr>SAVIOR_NAME = FACILITY_NAME neighbor,
         SAVIOR_LAT = LATITUDE neighbor,
         SAVIOR_LON = LONGITUDE neighbor,
         AVAILABLE_STOCK = CLOSING_STOCK inv_row,
         DISTANCE_KM = ROUND1 (ST_DISTANCE s (GEO_POINT source) (GEO_POINT neighbor) / 1000)\<rparr>)"

text \<open>HAVING DISTANCE_KM < 10\<close>

definition app_having :: "session \<Rightarrow> condition \<Rightarrow> joined_row list" where
  "app_having s cond =
     filter (\<lambda>t. DISTANCE_KM (app_select s t) < 10) (app_joined s cond)"

text \<open>
  ORDER BY DISTANCE_KM ASC, LIMIT 3. Rows at the same distance keep the order in which
  the join produced them.
\<close>

definition app_ranked :: "session \<Rightarrow> condition \<Rightarrow> joined_row list" where
  "app_ranked s cond =
     take 3 (sort_key (\<lambda>t. DISTANCE_KM (app_select s t)) (app_having s cond))"

text \<open>
  No handler surrounds \<^verbatim>\<open>session.sql(query).to_pandas()\<close> here: an exception of
  the store leaves the function (\<open>Inl\<close>), and so does the compilation error of a
  statement whose quotes do not pair up.
\<close>

definition find_nearest_neighbors ::
  "session \<Rightarrow> string \<Rightarrow> string \<Rightarrow> exn + neighbor_match list" where
  "find_nearest_neighbors s victim_id item_name =
     (case fault s of
        Some e \<Rightarrow> Inl e
      | None \<Rightarrow>
          (case read_condition (app_condition victim_id item_name) of
             Condition cond \<Rightarrow> Inr (map (app_select s) (app_ranked s cond))
           | Compile_error \<Rightarrow> Inl (StoreError ''SQL compilation error'')
           | Other_statement \<Rightarrow> other_statement s (app_condition victim_id item_name)))"

text \<open>
  The condition when neither argument holds a quote or a backslash: the three
  comparisons of the statement, with the arguments as the values compared.
\<close>

definition sql_literal_safe :: "string \<Rightarrow> bool" where
  "sql_literal_safe x = (CHR 0x27 \<notin> set x \<and> CHR 0x5C \<notin> set x)"

definition plain_condition :: "string \<Rightarrow> string \<Rightarrow> condition" where
  "plain_condition victim_id item_name =
     [[Text_equal Source_facility_id (Text victim_id),
       Text_equal Inv_item_name (Text item_name),
       Number_greater Inv_closing_stock (Number 100)]]"

text \<open>
  MVP app, \<^verbatim>\<open>find_nearest_neighbors\<close>: bound parameters, points made from
  LONGITUDE and LATITUDE, table INVENTORY_DAILY_PREDICTED, no HAVING clause.
\<close>

definition mvp_joined ::
  "session \<Rightarrow> string \<Rightarrow> string \<Rightarrow> (geo_facility \<times> geo_facility \<times> inventory_predicted) list" where
  "mvp_joined s victim_id item_name =
     [(source, neighbor, inv_row).
        source \<leftarrow> FACILITIES s,
        neighbor \<leftarrow> FACILITIES s,
        facility.FACILITY_ID source \<noteq> facility.FACILITY_ID neighbor,
        inv_row \<leftarrow> INVENTORY_DAILY_PREDICTED s,
        facility.FACILITY_ID neighbor = inventory.FACILITY_ID inv_row,
        facility.FACILITY_ID source = victim_id
          \<and> ITEM_NAME inv_row = item_name
          \<and> CLOSING_STOCK inv_row > 100]"

definition mvp_select ::
  "session \<Rightarrow> geo_facility \<times> geo_facility \<times> inventory_predicted \<Rightarrow> neighbor_match" where
  "mvp_select s t =
     (case t of (source, neighbor, inv_row) \<Rightarrow>
        \<lparr>SAVIOR_NAME = FACILITY_NAME neighbor,
         SAVIOR_LAT = LATITUDE neighbor,
         SAVIOR_LON = LONGITUDE neighbor,
         AVAILABLE_STOCK = CLOSING_STOCK inv_row,
         DISTANCE_KM = ROUND1 (ST_DISTANCE s
            (ST_MAKEPOINT (LONGITUDE source) (LATITUDE source))
            (ST_MAKEPOINT (LONGITUDE neighbor) (LATITUDE neighbor)) / 1000)\<rparr>)"

definition mvp_ranked ::
  "session \<Rightarrow> string \<Rightarrow> string \<Rightarrow> (geo_facility \<times> geo_facility \<times> inventory_predicted) list" where
  "mvp_ranked s victim_id item_name =
     take 3 (sort_key (\<lambda>t. DISTANCE_KM (mvp_select s t)) (mvp_joined s victim_id item_name))"

text \<open>
  What the dashboards show. The texts are those of the source without their emoji:
  \<open>Solution_found n\<close> is \<^verbatim>\<open>st.success\<close> with the number of options,
  \<open>No_supply_found\<close> is \<^verbatim>\<open>st.error("No neighbors found within range.")\<close> in the
  command-centre app and \<^verbatim>\<open>st.error("No nearby stock found.")\<close> in the MVP app,
  \<open>Sql_error e\<close> is \<^verbatim>\<open>st.error(f"SQL Error: {e}")\<close>.
\<close>

datatype notice =
    Solution_found nat
  | Neighbors_table "neighbor_match list"
  | Arc_layer "neighbor_match list" real real
  | Zoom_to real real
  | No_supply_found
  | Sql_error exn

text \<open>
  The handler catches every exception of the store, shows it, and returns an empty
  frame; the second component is what it rendered.
\<close>

definition mvp_find_nearest_neighbors ::
  "session \<Rightarrow> string \<Rightarrow> string \<Rightarrow> neighbor_match list \<times> notice list" where
  "mvp_find_nearest_neighbors s victim_id item_name =
     (case fault s of
        Some e \<Rightarrow> ([], [Sql_error e])
      | None \<Rightarrow> (map (mvp_select s) (mvp_ranked s victim_id item_name), []))"

section \<open>The callers of the neighbour search\<close>

text \<open>
  Command-centre app, emergency console: \<^verbatim>\<open>neighbors_df = find_nearest_neighbors(...)\<close>
  followed by the branch on \<^verbatim>\<open>neighbors_df.empty\<close>. The call is not inside a handler.
\<close>

definition console ::
  "session \<Rightarrow> 'a facility_scheme \<Rightarrow> string \<Rightarrow> exn + notice list" where
  "console s victim_record actual_item_name =
     (case find_nearest_neighbors s (facility.FACILITY_ID victim_record) actual_item_name of
        Inl e \<Rightarrow> Inl e
      | Inr neighbors_df \<Rightarrow>
          Inr (if neighbors_df \<noteq> []
               then [Solution_found (length neighbors_df),
                     Neighbors_table neighbors_df,
                     Arc_layer neighbors_df (LONGITUDE victim_record) (LATITUDE victim_record),
                     Zoom_to (LATITUDE victim_record) (LONGITUDE victim_record)]
               else [No_supply_found]))"

text \<open>
  Command-centre app, chat assistant. \<open>extracted_item\<close> is what the model-backed
  \<^verbatim>\<open>run_chat_action\<close> returned; \<open>victim_id\<close> is the script variable set by the
  console, unbound (\<open>None\<close>) when no hospital was selected in this run.
  \<open>Found_it\<close> is the "Found it!" reply, \<open>No_nearby_surplus\<close> is "I understood you want
  ..., but I couldn't find any nearby surplus.", \<open>Item_not_identified\<close> is "I'm sorry, I
  couldn't identify the medical item in your query."
\<close>

datatype chat_reply =
    Found_it string string real int
  | No_nearby_surplus string
  | Item_not_identified

definition chat ::
  "session \<Rightarrow> string option \<Rightarrow> string option \<Rightarrow> exn + chat_reply" where
  "chat s victim_id extracted_item =
     (case extracted_item of
        None \<Rightarrow> Inr Item_not_identified
      | Some item \<Rightarrow>
          if item = [] then Inr Item_not_identified
          else (case victim_id of
                  None \<Rightarrow> Inl NameError
                | Some v \<Rightarrow>
                    (case find_nearest_neighbors s v item of
                       Inl e \<Rightarrow> Inl e
                     | Inr matches \<Rightarrow>
                         Inr (case matches of
                                [] \<Rightarrow> No_nearby_surplus item
                              | top_match # _ \<Rightarrow>
                                  Found_it item (SAVIOR_NAME top_match)
                                    (DISTANCE_KM top_match) (AVAILABLE_STOCK top_match)))))"

text \<open>MVP app, emergency console; the notices include what the search itself rendered.\<close>

definition mvp_console ::
  "session \<Rightarrow> 'a facility_scheme \<Rightarrow> string \<Rightarrow> notice list" where
  "mvp_console s victim_record actual_item =
     (case mvp_find_nearest_neighbors s (facility.FACILITY_ID victim_record) actual_item of
        (neighbors, shown) \<Rightarrow>
          shown @
          (if neighbors \<noteq> []
           then [Solution_found (length neighbors),
                 Neighbors_table neighbors,
                 Arc_layer neighbors (LONGITUDE victim_record) (LATITUDE victim_record),
                 Zoom_to (LATITUDE victim_record) (LONGITUDE victim_record)]
           else [No_supply_found]))"

text \<open>
  MVP app, chat assistant, the "tactical solution" part: \<open>Nearest_surplus\<close> is
  "Nearest surplus found at ... (... km away).", \<open>No_surplus_for_transfer\<close> is
  "No nearby surplus found for lateral transfer."
\<close>

datatype tactical_msg = Nearest_surplus string real | No_surplus_for_transfer

definition mvp_tactical ::
  "session \<Rightarrow> string \<Rightarrow> string \<Rightarrow> tactical_msg \<times> notice list" where
  "mvp_tactical s target_id extracted_item =
     (case mvp_find_nearest_neighbors s target_id extracted_item of
        (matches, shown) \<Rightarrow>
          (case matches of
             [] \<Rightarrow> No_surplus_for_transfer
           | top_row # _ \<Rightarrow> Nearest_surplus (SAVIOR_NAME top_row) (DISTANCE_KM top_row),
           shown))"

section \<open>A small network\<close>

text \<open>
  A victim at the origin and five neighbours along the meridian, with a flat stand-in
  for the geodesic distance (111 km per degree).
\<close>

definition flat_distance :: "geography \<Rightarrow> geography \<Rightarrow> real" where
  "flat_distance p q = 111000 * (\<bar>fst p - fst q\<bar> + \<bar>snd p - snd q\<bar>)"

definition demo_facility :: "string \<Rightarrow> real \<Rightarrow> geo_facility" where
  "demo_facility n lat =
     \<lparr>facility.FACILITY_ID = n, FACILITY_NAME = ''RS '' @ n, LATITUDE = lat, LONGITUDE = 0,
      GEO_POINT = ST_MAKEPOINT 0 lat\<rparr>"

definition demo_stock :: "string \<Rightarrow> string \<Rightarrow> int \<Rightarrow> inventory" where
  "demo_stock f item n =
     \<lparr>RECORD_ID = f @ ''-'' @ item, DATE = ''2024-01-01'', FACILITY_ID = f,
      ITEM_NAME = item, CATEGORY = ''Maternal'', OPENING_STOCK = n, RECEIVED_QTY = 0,
      ISSUED_QTY = 0, CLOSING_STOCK = n, LEAD_TIME_DAYS = 3, CRITICALITY_LEVEL = ''High''\<rparr>"

definition demo_inventory :: "inventory list" where
  "demo_inventory =
     [demo_stock ''V'' ''Oxytocin Injection'' 0,
      demo_stock ''A'' ''Oxytocin Injection'' 150,
      demo_stock ''B'' ''Oxytocin Injection'' 50,
      demo_stock ''C'' ''Oxytocin Injection'' 300,
      demo_stock ''D'' ''Oxytocin Injection'' 120,
      demo_stock ''E'' ''Oxytocin Injection'' 101]"

definition predicted :: "inventory \<Rightarrow> inventory_predicted" where
  "predicted r = inventory.extend r
     \<lparr>PREDICTED_STOCKOUT_DAYS = 30, AVG_DAILY_USAGE = 5\<rparr>"

definition demo :: session where
  "demo =
     \<lparr>FACILITIES =
        [demo_facility ''V'' 0, demo_facility ''E'' (4 / 100), demo_facility ''A'' (1 / 100),
         demo_facility ''B'' (2 / 100), demo_facility ''C'' (3 / 100),
         demo_facility ''D'' (5 / 100)],
      INVENTORY_DAILY = demo_inventory,
      INVENTORY_DAILY_PREDICTED = map predicted demo_inventory,
      ST_DISTANCE = flat_distance,
      fault = None,
      other_statement = (\<lambda>text. Inr [])\<rparr>"


definition any_stock_item :: string where
  "any_stock_item =
     ''x'' @ CHR 0x27 # '' OR source.FACILITY_ID = '' @ CHR 0x27 # ''V'' @ CHR 0x27 #
     '' OR '' @ CHR 0x27 # ''b'' @ CHR 0x27 # ''='' @ CHR 0x27 # ''c''"

definition ringers_lactate :: string where
  "ringers_lactate = ''Ringer'' @ CHR 0x27 # ''s Lactate''"

text \<open>The small network with every stock row recorded under the name "Ringer's Lactate".\<close>

definition demo_ringers :: session where
  "demo_ringers =
     demo\<lparr>INVENTORY_DAILY := map (ITEM_NAME_update (\<lambda>_. ringers_lactate)) demo_inventory,
          INVENTORY_DAILY_PREDICTED :=
            map (predicted \<circ> ITEM_NAME_update (\<lambda>_. ringers_lactate)) demo_inventory\<rparr>"

section \<open>Item-name resolution in the MVP app\<close>

text \<open>
  \<^verbatim>\<open>str.lower()\<close> on ASCII text; other characters are left as they are.
\<close>

definition lower_char :: "char \<Rightarrow> char" where
  "lower_char c =
     (case map_of (zip ''ABCDEFGHIJKLMNOPQRSTUVWXYZ'' ''abcdefghijklmnopqrstuvwxyz'') c of
        Some d \<Rightarrow> d
      | None \<Rightarrow> c)"

definition lower :: "string \<Rightarrow> string" where
  "lower x = map lower_char x"

text \<open>\<^verbatim>\<open>item.split(" ")[0].lower()\<close>\<close>

definition simple_name :: "string \<Rightarrow> string" where
  "simple_name item = lower (takeWhile (\<lambda>c. c \<noteq> CHR '' '') item)"

text \<open>
  The test of the loop body, on the already lowered query; \<open>sublist a b\<close> is Python's
  \<^verbatim>\<open>a in b\<close> on strings.
\<close>

definition item_matches :: "string \<Rightarrow> string \<Rightarrow> bool" where
  "item_matches user_query item =
     (sublist (lower item) user_query \<or> sublist (simple_name item) user_query)"

fun first_match :: "string \<Rightarrow> string list \<Rightarrow> string option" where
  "first_match user_query [] = None"
| "first_match user_query (item # rest) =
     (if item_matches user_query item then Some item else first_match user_query rest)"

text \<open>
  \<^verbatim>\<open>sorted(valid_items, key=len, reverse=True)\<close>: a stable sort, longest first, items
  of equal length in their original order.
\<close>

definition sorted_by_len_desc :: "string list \<Rightarrow> string list" where
  "sorted_by_len_desc valid_items = rev (sort_key length (rev valid_items))"

definition run_chat_action :: "string \<Rightarrow> string list \<Rightarrow> string option" where
  "run_chat_action user_query valid_items =
     first_match (lower user_query) (sorted_by_len_desc valid_items)"

section \<open>The inventory generator\<close>

record master_item =
  name :: string
  cat :: string
  crit :: string

definition mk_item :: "string \<Rightarrow> string \<Rightarrow> string \<Rightarrow> master_item" where
  "mk_item n c k = \<lparr>name = n, cat = c, crit = k\<rparr>"

definition MASTER_ITEMS :: "master_item list" where
  "MASTER_ITEMS =
     [mk_item ''Oxytocin Injection'' ''Maternal'' ''High'',
      mk_item ''Magnesium Sulfate'' ''Maternal'' ''High'',
      mk_item ''Amoxicillin 500mg'' ''Antibiotic'' ''Medium'',
      mk_item ''Azithromycin'' ''Antibiotic'' ''Medium'',
      mk_item ''Insulin Glargine'' ''Chronic'' ''High'',
      mk_item ''Metformin 500mg'' ''Chronic'' ''Medium'',
      mk_item ''Amlodipine 5mg'' ''Chronic'' ''Medium'',
      mk_item ''Ringer Lactate'' ''Fluids'' ''High'',
      mk_item ''Normal Saline 0.9%'' ''Fluids'' ''Medium'',
      mk_item ''Epinephrine'' ''Emergency'' ''High'',
      mk_item ''BCG Vaccine'' ''Vaccine'' ''High'',
      mk_item ''Polio Vaccine'' ''Vaccine'' ''High'',
      mk_item ''Surgical Masks'' ''Consumable'' ''Low'',
      mk_item ''Sterile Gloves'' ''Consumable'' ''Low'',
      mk_item ''Disposable Syringes 3ml'' ''Consumable'' ''Low'',
      mk_item ''IV Cannula'' ''Consumable'' ''Medium'',
      mk_item ''HIV Rapid Test Kit'' ''Diagnostic'' ''High'',
      mk_item ''Malaria RDT'' ''Diagnostic'' ''High'',
      mk_item ''Blood Glucose Strips'' ''Diagnostic'' ''Medium'',
      mk_item ''Paracetamol 500mg'' ''General'' ''Low'',
      mk_item ''Ibuprofen 400mg'' ''General'' ''Low'',
      mk_item ''Oral Rehydration Salts'' ''General'' ''Medium'',
      mk_item ''TB-Kit Adult'' ''Infectious'' ''High'',
      mk_item ''Artemether (Malaria)'' ''Infectious'' ''High'',
      mk_item ''Folic Acid'' ''Maternal'' ''Low'']"

text \<open>
  What the script takes from outside: the geodesic distance in kilometres of two
  (latitude, longitude) pairs, the raw draws of the random generator, the identifiers
  \<^verbatim>\<open>uuid.uuid4()\<close> hands out, and today's date.
\<close>

record world =
  geodesic_km :: "real \<times> real \<Rightarrow> real \<times> real \<Rightarrow> real"
  draws :: "nat \<Rightarrow> nat"
  uuid4 :: "nat \<Rightarrow> string"
  today :: string

text \<open>
  \<^verbatim>\<open>random.randint(a, b)\<close> returns an integer of the closed range and consumes a
  draw; the second component is the position of the next draw.
\<close>

definition randint :: "world \<Rightarrow> int \<Rightarrow> int \<Rightarrow> nat \<Rightarrow> int \<times> nat" where
  "randint w a b i = (a + int (draws w i mod nat (b - a + 1)), Suc i)"

text \<open>
  \<^verbatim>\<open>random.sample(population, k)\<close>: \<open>k\<close> elements at distinct positions, each
  position picked by a draw among those still left.
\<close>

fun sample :: "world \<Rightarrow> 'a list \<Rightarrow> nat \<Rightarrow> nat \<Rightarrow> 'a list \<times> nat" where
  "sample w population 0 i = ([], i)"
| "sample w population (Suc k) i =
     (if population = [] then ([], i)
      else let j = draws w i mod length population;
               (rest, i') = sample w (take j population @ drop (Suc j) population) k (Suc i)
           in (population ! j # rest, i'))"

text \<open>The body of the inner loop of the savior search, on one row.\<close>

definition nearest_step ::
  "world \<Rightarrow> string \<Rightarrow> real \<times> real \<Rightarrow> facility \<Rightarrow> real \<times> string option \<Rightarrow> real \<times> string option" where
  "nearest_step w vid v_loc row st =
     (case st of (min_dist, nearest) \<Rightarrow>
        if facility.FACILITY_ID row = vid then (min_dist, nearest)
        else let dist = geodesic_km w v_loc (LATITUDE row, LONGITUDE row)
             in if dist < min_dist then (dist, Some (facility.FACILITY_ID row))
                else (min_dist, nearest))"

text \<open>
  One round of the outer loop: \<^verbatim>\<open>.iloc[0]\<close> of the rows with the victim's id, then
  the scan of all rows starting from \<^verbatim>\<open>min_dist, nearest = 9999, None\<close>.
\<close>

definition find_savior :: "world \<Rightarrow> facility list \<Rightarrow> string \<Rightarrow> exn + string option" where
  "find_savior w df_facilities vid =
     (case find (\<lambda>r. facility.FACILITY_ID r = vid) df_facilities of
        None \<Rightarrow> Inl IndexError
      | Some victim_row \<Rightarrow>
          Inr (snd (fold (nearest_step w vid (LATITUDE victim_row, LONGITUDE victim_row))
                      df_facilities (9999, None))))"

text \<open>\<^verbatim>\<open>if nearest: savior_ids.append(nearest)\<close>; an empty identifier is falsy.\<close>

fun collect_saviors ::
  "world \<Rightarrow> facility list \<Rightarrow> string list \<Rightarrow> string list \<Rightarrow> exn + string list" where
  "collect_saviors w df_facilities [] savior_ids = Inr savior_ids"
| "collect_saviors w df_facilities (vid # vids) savior_ids =
     (case find_savior w df_facilities vid of
        Inl e \<Rightarrow> Inl e
      | Inr nearest \<Rightarrow>
          collect_saviors w df_facilities vids
            (case nearest of
               None \<Rightarrow> savior_ids
             | Some n \<Rightarrow> if n \<noteq> [] then savior_ids @ [n] else savior_ids))"

text \<open>\<^verbatim>\<open>df_facilities['FACILITY_ID'].head(3).tolist()\<close>\<close>

definition victim_ids_of :: "facility list \<Rightarrow> string list" where
  "victim_ids_of df_facilities = take 3 (map facility.FACILITY_ID df_facilities)"

text \<open>The crisis scenario: what becomes of the three figures drawn for an item.\<close>

definition scenario ::
  "string list \<Rightarrow> string list \<Rightarrow> string \<Rightarrow> master_item \<Rightarrow> int \<times> int \<times> int \<Rightarrow> int \<times> int \<times> int" where
  "scenario victim_ids savior_ids fid item drawn =
     (if name item = ''Oxytocin Injection''
      then (if fid \<in> set victim_ids then (10, 0, 10)
            else if fid \<in> set savior_ids then (600, 0, 5)
            else drawn)
      else drawn)"

text \<open>The row appended for one item: the dictionary of the loop body, with
  \<open>n\<close> the number of rows appended before it.\<close>

definition make_row ::
  "world \<Rightarrow> nat \<Rightarrow> string \<Rightarrow> master_item \<Rightarrow> int \<times> int \<times> int \<Rightarrow> int \<Rightarrow> inventory" where
  "make_row w n fid item figures lead_time =
     (case figures of (opening, received, issued) \<Rightarrow>
        \<lparr>RECORD_ID = uuid4 w n,
         DATE = today w,
         FACILITY_ID = fid,
         ITEM_NAME = name item,
         CATEGORY = cat item,
         OPENING_STOCK = opening,
         RECEIVED_QTY = received,
         ISSUED_QTY = issued,
         CLOSING_STOCK = max 0 (opening + received - issued),
         LEAD_TIME_DAYS = lead_time,
         CRITICALITY_LEVEL = crit item\<rparr>)"

text \<open>The loop over the items selected for one facility; the state is the rows so far
  and the position of the next draw.\<close>

fun item_rows ::
  "world \<Rightarrow> string list \<Rightarrow> string list \<Rightarrow> string \<Rightarrow> master_item list \<Rightarrow>
   inventory list \<times> nat \<Rightarrow> inventory list \<times> nat" where
  "item_rows w victim_ids savior_ids fid [] st = st"
| "item_rows w victim_ids savior_ids fid (item # items) st =
     (case st of (inventory_rows, i) \<Rightarrow>
        (case randint w 100 400 i of (opening, i1) \<Rightarrow>
        (case randint w 0 30 i1 of (received, i2) \<Rightarrow>
        (case randint w 5 25 i2 of (issued, i3) \<Rightarrow>
        (case randint w 2 6 i3 of (lead_time, i4) \<Rightarrow>
           item_rows w victim_ids savior_ids fid items
             (inventory_rows @
                [make_row w (length inventory_rows) fid item
                   (scenario victim_ids savior_ids fid item (opening, received, issued))
                   lead_time],
              i4))))))"

text \<open>The items of one facility: 20 to 25 sampled ones, and Oxytocin added by hand for
  a victim or savior that did not draw it.\<close>

definition select_items ::
  "world \<Rightarrow> string list \<Rightarrow> string list \<Rightarrow> string \<Rightarrow> nat \<Rightarrow> master_item list \<times> nat" where
  "select_items w victim_ids savior_ids fid i =
     (case randint w 20 25 i of (num_items, i1) \<Rightarrow>
        (case sample w MASTER_ITEMS (nat num_items) i1 of (selected_items, i2) \<Rightarrow>
           (if (fid \<in> set victim_ids \<or> fid \<in> set savior_ids)
               \<and> ''Oxytocin Injection'' \<notin> set (map name selected_items)
            then (selected_items @ [MASTER_ITEMS ! 0], i2)
            else (selected_items, i2))))"

fun facility_rows ::
  "world \<Rightarrow> string list \<Rightarrow> string list \<Rightarrow> facility list \<Rightarrow>
   inventory list \<times> nat \<Rightarrow> inventory list \<times> nat" where
  "facility_rows w victim_ids savior_ids [] st = st"
| "facility_rows w victim_ids savior_ids (fac # facs) st =
     (case st of (inventory_rows, i) \<Rightarrow>
        (case select_items w victim_ids savior_ids (facility.FACILITY_ID fac) i of
           (selected_items, i') \<Rightarrow>
             facility_rows w victim_ids savior_ids facs
               (item_rows w victim_ids savior_ids (facility.FACILITY_ID fac) selected_items
                  (inventory_rows, i'))))"

text \<open>
  \<open>Input_not_found\<close> is the message printed when \<^verbatim>\<open>hospitals.csv\<close> is missing
  (nothing is written then); \<open>Generated n m\<close> is the closing message, with the rows
  written to \<^verbatim>\<open>inventory_data.csv\<close>.
\<close>

datatype report = Input_not_found | Generated nat nat "inventory list"

definition generate_inventory :: "world \<Rightarrow> facility list option \<Rightarrow> exn + report" where
  "generate_inventory w input =
     (case input of
        None \<Rightarrow> Inr Input_not_found
      | Some df_facilities \<Rightarrow>
          (case collect_saviors w df_facilities (victim_ids_of df_facilities) [] of
             Inl e \<Rightarrow> Inl e
           | Inr savior_ids \<Rightarrow>
               (case facility_rows w (victim_ids_of df_facilities) savior_ids df_facilities ([], 0) of
                  (inventory_rows, _) \<Rightarrow>
                    Inr (Generated (length inventory_rows) (length df_facilities)
                           inventory_rows))))"

text \<open>The rows that a run wrote to \<^verbatim>\<open>inventory_data.csv\<close>.\<close>

definition written_rows :: "exn + report \<Rightarrow> inventory list" where
  "written_rows outcome =
     (case outcome of
        Inr (Generated _ _ inventory_rows) \<Rightarrow> inventory_rows
      | _ \<Rightarrow> [])"

text \<open>Facility and the four stock figures of a row.\<close>

definition figures_of :: "inventory \<Rightarrow> string \<times> int \<times> int \<times> int \<times> int" where
  "figures_of r =
     (inventory.FACILITY_ID r, OPENING_STOCK r, RECEIVED_QTY r, ISSUED_QTY r, CLOSING_STOCK r)"


text \<open>Hospitals along a meridian, a flat stand-in for the geodesic distance, and a
  fixed sequence of draws.\<close>



definition hospital :: "string \<Rightarrow> real \<Rightarrow> facility" where
  "hospital n lat = \<lparr>facility.FACILITY_ID = n, FACILITY_NAME = ''RS '' @ n, LATITUDE = lat, LONGITUDE = 0\<rparr>"

definition flat_km :: "real \<times> real \<Rightarrow> real \<times> real \<Rightarrow> real" where
  "flat_km p q = 111 * (\<bar>fst p - fst q\<bar> + \<bar>snd p - snd q\<bar>)"

definition two_hospitals :: "facility list" where
  "two_hospitals = [hospital ''A'' 0, hospital ''B'' (1 / 100)]"


definition demo_world :: world where
  "demo_world = \<lparr>geodesic_km = flat_km, draws = (\<lambda>n. 7 * n + 3),
                  uuid4 = (\<lambda>n. replicate n (CHR ''u'')), today = ''2024-01-01''\<rparr>"

section \<open>Comparing the two dashboards\<close>

text \<open>The three columns of an inventory row that the neighbour queries read.\<close>

definition stock_key :: "'a inventory_scheme \<Rightarrow> string \<times> string \<times> int" where
  "stock_key r = (inventory.FACILITY_ID r, ITEM_NAME r, CLOSING_STOCK r)"

text \<open>Both inventory tables hold the same stock, row by row.\<close>

definition same_stock :: "session \<Rightarrow> bool" where
  "same_stock s =
     (map stock_key (INVENTORY_DAILY s) = map stock_key (INVENTORY_DAILY_PREDICTED s))"

text \<open>Every stored GEO_POINT is the point of the row's LONGITUDE and LATITUDE.\<close>

definition geo_points_agree :: "session \<Rightarrow> bool" where
  "geo_points_agree s =
     list_all (\<lambda>f. GEO_POINT f = ST_MAKEPOINT (LONGITUDE f) (LATITUDE f)) (FACILITIES s)"

text \<open>Every candidate that passes the stock filter lies strictly within 10 km.\<close>

definition app_all_within_10km :: "session \<Rightarrow> string \<Rightarrow> string \<Rightarrow> bool" where
  "app_all_within_10km s victim_id item_name =
     list_all (\<lambda>t. DISTANCE_KM (app_select s t) < 10)
       (app_joined s (plain_condition victim_id item_name))"

definition mvp_all_within_10km :: "session \<Rightarrow> string \<Rightarrow> string \<Rightarrow> bool" where
  "mvp_all_within_10km s victim_id item_name =
     list_all (\<lambda>t. DISTANCE_KM (mvp_select s t) < 10) (mvp_joined s victim_id item_name)"

text \<open>The small network with a store that times out.\<close>

definition demo_down :: session where
  "demo_down = demo\<lparr>fault := Some (StoreError ''timeout'')\<rparr>"

text \<open>The small network after the forecast table recorded a lower stock at A.\<close>

definition demo_stale :: session where
  "demo_stale =
     demo\<lparr>INVENTORY_DAILY_PREDICTED :=
            map predicted
              [demo_stock ''V'' ''Oxytocin Injection'' 0,
               demo_stock ''A'' ''Oxytocin Injection'' 90,
               demo_stock ''B'' ''Oxytocin Injection'' 50,
               demo_stock ''C'' ''Oxytocin Injection'' 300,
               demo_stock ''D'' ''Oxytocin Injection'' 120,
               demo_stock ''E'' ''Oxytocin Injection'' 101]\<rparr>"

section \<open>Properties of the neighbour search\<close>

lemma ROUND1_nonneg: "0 \<le> x \<Longrightarrow> 0 \<le> ROUND1 x"
  by (simp add: ROUND1_def)

lemma scan_in_lit:
  "CHR 0x27 \<notin> set v \<Longrightarrow> CHR 0x5C \<notin> set v \<Longrightarrow>
     scan (In_lit l) (v @ CHR 0x27 # rest) = scan (Lit_quote (l @ v)) rest"
  by (induction v arbitrary: l) auto

lemma scan_app_condition:
  assumes "sql_literal_safe victim_id" "sql_literal_safe item_name"
  shows "scan Outside (app_condition victim_id item_name) =
           Tokens [Word ''source.FACILITY_ID'', Sym CHR ''='', Lit victim_id, Word ''AND'',
                   Word ''inv.ITEM_NAME'', Sym CHR ''='', Lit item_name, Word ''AND'',
                   Word ''inv.CLOSING_STOCK'', Sym CHR ''>'', Word ''100'']"
  using assms
  by (simp add: app_condition_def sql_literal_safe_def scan_in_lit is_space_def word_char_def
        sym_char_def)

lemma read_plain_condition:
  assumes "sql_literal_safe victim_id" "sql_literal_safe item_name"
  shows "read_condition (app_condition victim_id item_name)
           = Condition (plain_condition victim_id item_name)"
  by (simp add: read_condition_def scan_app_condition[OF assms] condition_of_def
        plain_condition_def)

lemma satisfies_plain_condition:
  "satisfies (plain_condition v i) (source, neighbor, r) \<longleftrightarrow>
     facility.FACILITY_ID source = v \<and> ITEM_NAME r = i \<and> 100 < CLOSING_STOCK r"
  by (simp add: satisfies_def plain_condition_def)

lemma in_app_joined:
  "(source, neighbor, r) \<in> set (app_joined s (plain_condition v i)) \<longleftrightarrow>
     source \<in> set (FACILITIES s) \<and> neighbor \<in> set (FACILITIES s) \<and> r \<in> set (INVENTORY_DAILY s)
     \<and> facility.FACILITY_ID source \<noteq> facility.FACILITY_ID neighbor
     \<and> facility.FACILITY_ID neighbor = inventory.FACILITY_ID r
     \<and> facility.FACILITY_ID source = v \<and> ITEM_NAME r = i \<and> 100 < CLOSING_STOCK r"
  by (auto simp: app_joined_def satisfies_plain_condition)

lemma in_mvp_joined:
  "(source, neighbor, r) \<in> set (mvp_joined s v i) \<longleftrightarrow>
     source \<in> set (FACILITIES s) \<and> neighbor \<in> set (FACILITIES s) \<and> r \<in> set (INVENTORY_DAILY_PREDICTED s)
     \<and> facility.FACILITY_ID source \<noteq> facility.FACILITY_ID neighbor
     \<and> facility.FACILITY_ID neighbor = inventory.FACILITY_ID r
     \<and> facility.FACILITY_ID source = v \<and> ITEM_NAME r = i \<and> 100 < CLOSING_STOCK r"
  by (auto simp: mvp_joined_def)

lemma set_app_ranked: "set (app_ranked s cond) \<subseteq> set (app_joined s cond)"
  unfolding app_ranked_def app_having_def using set_take_subset[of 3] by fastforce

lemma set_mvp_ranked: "set (mvp_ranked s v i) \<subseteq> set (mvp_joined s v i)"
  unfolding mvp_ranked_def using set_take_subset[of 3] by fastforce

lemma sorted_take_sort_key: "sorted (map f (take n (sort_key f xs)))"
  using sorted_wrt_take[OF sorted_sort_key[of f xs], of n] by (simp add: take_map)

lemma take_sort_key_least:
  assumes "x \<in> set (take n (sort_key f xs))" "y \<in> set (drop n (sort_key f xs))"
  shows "f x \<le> f y"
proof -
  have "sorted (map f (take n (sort_key f xs) @ drop n (sort_key f xs)))"
    by simp
  then show ?thesis using assms
    unfolding map_append sorted_append by auto
qed

lemma mset_take_drop_sort_key:
  "mset (take n (sort_key f xs)) + mset (drop n (sort_key f xs)) = mset xs"
  by (metis append_take_drop_id mset_append mset_sort)

lemma app_select_simps:
  "AVAILABLE_STOCK (app_select s (a, b, r)) = CLOSING_STOCK r"
  "DISTANCE_KM (app_select s (a, b, r)) = ROUND1 (ST_DISTANCE s (GEO_POINT a) (GEO_POINT b) / 1000)"
  by (simp_all add: app_select_def)

lemma mvp_select_simps:
  "AVAILABLE_STOCK (mvp_select s (a, b, r)) = CLOSING_STOCK r"
  "DISTANCE_KM (mvp_select s (a, b, r)) = ROUND1 (ST_DISTANCE s
      (ST_MAKEPOINT (LONGITUDE a) (LATITUDE a)) (ST_MAKEPOINT (LONGITUDE b) (LATITUDE b)) / 1000)"
  by (simp_all add: mvp_select_def)

lemma nearest_step_not_self:
  "snd st \<noteq> Some vid \<Longrightarrow> snd (nearest_step w vid loc row st) \<noteq> Some vid"
  by (cases st) (auto simp: nearest_step_def Let_def)

lemma fold_nearest_not_self:
  "snd st \<noteq> Some vid \<Longrightarrow> snd (fold (nearest_step w vid loc) rows st) \<noteq> Some vid"
  by (induction rows arbitrary: st) (simp_all add: nearest_step_not_self)

lemma find_savior_not_self: "find_savior w df vid = Inr (Some n) \<Longrightarrow> n \<noteq> vid"
  using fold_nearest_not_self[of "(9999, None)" vid w _ df]
  by (auto simp: find_savior_def split: option.splits)

lemma find_plain:
  assumes "sql_literal_safe v" "sql_literal_safe i"
  shows "find_nearest_neighbors s v i =
           (case fault s of
              Some e \<Rightarrow> Inl e
            | None \<Rightarrow> Inr (map (app_select s) (app_ranked s (plain_condition v i))))"
  by (simp add: find_nearest_neighbors_def read_plain_condition[OF assms] split: option.splits)

lemma find_Inr:
  assumes "sql_literal_safe v" "sql_literal_safe i"
  shows "find_nearest_neighbors s v i = Inr rows \<longleftrightarrow>
     fault s = None \<and> rows = map (app_select s) (app_ranked s (plain_condition v i))"
  by (auto simp: find_plain[OF assms] split: option.splits)

lemma mvp_find_up:
  "fault s = None \<Longrightarrow>
     mvp_find_nearest_neighbors s v i = (map (mvp_select s) (mvp_ranked s v i), [])"
  by (simp add: mvp_find_nearest_neighbors_def)

lemma mvp_find_down:
  "fault s = Some e \<Longrightarrow> mvp_find_nearest_neighbors s v i = ([], [Sql_error e])"
  by (simp add: mvp_find_nearest_neighbors_def)

lemma sorted_app_rows: "sorted (map DISTANCE_KM (map (app_select s) (app_ranked s cond)))"
  using sorted_take_sort_key[of "\<lambda>t. DISTANCE_KM (app_select s t)" 3 "app_having s cond"]
  by (simp add: app_ranked_def comp_def)

lemma sorted_mvp_rows: "sorted (map DISTANCE_KM (map (mvp_select s) (mvp_ranked s v i)))"
  using sorted_take_sort_key[of "\<lambda>t. DISTANCE_KM (mvp_select s t)" 3 "mvp_joined s v i"]
  by (simp add: mvp_ranked_def comp_def)

lemma sorted_mvp_fst: "sorted (map DISTANCE_KM (fst (mvp_find_nearest_neighbors s v i)))"
  by (cases "fault s") (simp_all add: mvp_find_up mvp_find_down sorted_mvp_rows del: map_map)

lemma top3:
  assumes "3 \<le> length xs"
  shows "length (map g (take 3 (sort_key f xs))) = 3
       \<and> mset (map g (take 3 (sort_key f xs))) + mset (map g (drop 3 (sort_key f xs))) = mset (map g xs)
       \<and> (\<forall>x \<in> set (take 3 (sort_key f xs)). \<forall>y \<in> set (drop 3 (sort_key f xs)). f x \<le> f y)"
proof (intro conjI ballI)
  show "length (map g (take 3 (sort_key f xs))) = 3" using assms by simp
  have "image_mset g (mset (take 3 (sort_key f xs)) + mset (drop 3 (sort_key f xs))) = image_mset g (mset xs)"
    by (simp only: mset_take_drop_sort_key)
  then show "mset (map g (take 3 (sort_key f xs))) + mset (map g (drop 3 (sort_key f xs))) = mset (map g xs)"
    by simp
next
  fix x y assume "x \<in> set (take 3 (sort_key f xs))" "y \<in> set (drop 3 (sort_key f xs))"
  then show "f x \<le> f y" by (rule take_sort_key_least)
qed

text \<open>
  What the searches guarantee. For the command-centre app these lemmas take both arguments
  without quote or backslash, in which case its statement is read as the three comparisons
  of \<open>plain_condition\<close>; the MVP app binds its arguments and needs no such condition.
\<close>

lemma plain_search_excludes_source_and_ascends:
  assumes safe: "sql_literal_safe victim_id" "sql_literal_safe item_name"
  shows "(\<forall>rows. find_nearest_neighbors s victim_id item_name = Inr rows \<longrightarrow>
            rows = map (app_select s) (app_ranked s (plain_condition victim_id item_name))
            \<and> (\<forall>t \<in> set (app_ranked s (plain_condition victim_id item_name)).
                  facility.FACILITY_ID (fst (snd t)) \<noteq> victim_id)
            \<and> sorted (map DISTANCE_KM rows))
       \<and> (fault s = None \<longrightarrow>
            fst (mvp_find_nearest_neighbors s v i) = map (mvp_select s) (mvp_ranked s v i))
       \<and> (\<forall>t \<in> set (mvp_ranked s v i). facility.FACILITY_ID (fst (snd t)) \<noteq> v)
       \<and> sorted (map DISTANCE_KM (fst (mvp_find_nearest_neighbors s v i)))
       \<and> (\<forall>n. find_savior w df vid = Inr (Some n) \<longrightarrow> n \<noteq> vid)"
proof (intro conjI allI impI ballI)
  fix rows assume r: "find_nearest_neighbors s victim_id item_name = Inr rows"
  then show "rows = map (app_select s) (app_ranked s (plain_condition victim_id item_name))"
    by (simp add: find_Inr[OF safe])
  then show "sorted (map DISTANCE_KM rows)" using sorted_app_rows by simp
next
  fix rows t assume "t \<in> set (app_ranked s (plain_condition victim_id item_name))"
  then have "t \<in> set (app_joined s (plain_condition victim_id item_name))" using set_app_ranked by blast
  then show "facility.FACILITY_ID (fst (snd t)) \<noteq> victim_id"
    using in_app_joined[of "fst t" "fst (snd t)" "snd (snd t)" s victim_id item_name] by auto
next
  assume "fault s = None"
  then show "fst (mvp_find_nearest_neighbors s v i) = map (mvp_select s) (mvp_ranked s v i)"
    by (simp add: mvp_find_up)
next
  fix t assume "t \<in> set (mvp_ranked s v i)"
  then have "t \<in> set (mvp_joined s v i)" using set_mvp_ranked by blast
  then show "facility.FACILITY_ID (fst (snd t)) \<noteq> v"
    using in_mvp_joined[of "fst t" "fst (snd t)" "snd (snd t)" s v i] by auto
next
  show "sorted (map DISTANCE_KM (fst (mvp_find_nearest_neighbors s v i)))"
    by (rule sorted_mvp_fst)
next
  fix n assume "find_savior w df vid = Inr (Some n)"
  then show "n \<noteq> vid" by (rule find_savior_not_self)
qed

lemma plain_matches_above_threshold_at_nonneg_distance:
  assumes dist: "\<forall>p q. 0 \<le> ST_DISTANCE s p q"
    and safe: "sql_literal_safe victim_id" "sql_literal_safe item_name"
  shows "(\<forall>rows. find_nearest_neighbors s victim_id item_name = Inr rows \<longrightarrow>
            (\<forall>r \<in> set rows. 100 < AVAILABLE_STOCK r \<and> 0 \<le> DISTANCE_KM r))
       \<and> (\<forall>r \<in> set (fst (mvp_find_nearest_neighbors s v i)).
            100 < AVAILABLE_STOCK r \<and> 0 \<le> DISTANCE_KM r)"
proof (intro conjI allI impI ballI)
  fix rows r
  assume "find_nearest_neighbors s victim_id item_name = Inr rows" "r \<in> set rows"
  then obtain t where t: "t \<in> set (app_joined s (plain_condition victim_id item_name))"
      "r = app_select s t"
    using set_app_ranked[of s "plain_condition victim_id item_name"]
    by (fastforce simp: find_Inr[OF safe])
  obtain a b c where abc: "t = (a, b, c)" by (cases t)
  show "100 < AVAILABLE_STOCK r" using t abc by (simp add: in_app_joined app_select_simps)
  show "0 \<le> DISTANCE_KM r" using t abc by (simp add: app_select_simps ROUND1_nonneg dist[rule_format])
next
  fix r
  assume "r \<in> set (fst (mvp_find_nearest_neighbors s v i))"
  then obtain t where t: "t \<in> set (mvp_joined s v i)" "r = mvp_select s t"
    using set_mvp_ranked[of s v i]
    by (fastforce simp: mvp_find_nearest_neighbors_def split: option.splits)
  obtain a b c where abc: "t = (a, b, c)" by (cases t)
  show "100 < AVAILABLE_STOCK r" using t abc by (simp add: in_mvp_joined mvp_select_simps)
  show "0 \<le> DISTANCE_KM r" using t abc by (simp add: mvp_select_simps ROUND1_nonneg dist[rule_format])
qed

lemma plain_three_closest_returned:
  assumes up: "fault s = None"
    and safe: "sql_literal_safe victim_id" "sql_literal_safe item_name"
  shows "(3 \<le> length (app_having s (plain_condition victim_id item_name)) \<longrightarrow>
           (\<exists>rows rest.
              find_nearest_neighbors s victim_id item_name = Inr rows
              \<and> length rows = 3
              \<and> sorted (map DISTANCE_KM rows)
              \<and> mset rows + mset rest = mset (map (app_select s) (app_having s (plain_condition victim_id item_name)))
              \<and> (\<forall>r \<in> set rows. \<forall>c \<in> set rest. DISTANCE_KM r \<le> DISTANCE_KM c)))
       \<and> (3 \<le> length (mvp_joined s v i) \<longrightarrow>
           (\<exists>rows rest.
              fst (mvp_find_nearest_neighbors s v i) = rows
              \<and> length rows = 3
              \<and> sorted (map DISTANCE_KM rows)
              \<and> mset rows + mset rest = mset (map (mvp_select s) (mvp_joined s v i))
              \<and> (\<forall>r \<in> set rows. \<forall>c \<in> set rest. DISTANCE_KM r \<le> DISTANCE_KM c)))"
proof (intro conjI impI)
  assume n: "3 \<le> length (app_having s (plain_condition victim_id item_name))"
  let ?f = "\<lambda>t. DISTANCE_KM (app_select s t)"
  let ?xs = "app_having s (plain_condition victim_id item_name)"
  let ?rows = "map (app_select s) (take 3 (sort_key ?f ?xs))"
  let ?rest = "map (app_select s) (drop 3 (sort_key ?f ?xs))"
  note t = top3[OF n, of "app_select s" ?f]
  have 1: "find_nearest_neighbors s victim_id item_name = Inr ?rows"
    using up by (simp add: find_Inr[OF safe] app_ranked_def)
  have 2: "sorted (map DISTANCE_KM ?rows)"
    using sorted_app_rows[of s "plain_condition victim_id item_name"] by (simp add: app_ranked_def)
  have 3: "\<forall>r \<in> set ?rows. \<forall>c \<in> set ?rest. DISTANCE_KM r \<le> DISTANCE_KM c"
    using t by auto
  show "\<exists>rows rest.
              find_nearest_neighbors s victim_id item_name = Inr rows
              \<and> length rows = 3
              \<and> sorted (map DISTANCE_KM rows)
              \<and> mset rows + mset rest = mset (map (app_select s) (app_having s (plain_condition victim_id item_name)))
              \<and> (\<forall>r \<in> set rows. \<forall>c \<in> set rest. DISTANCE_KM r \<le> DISTANCE_KM c)"
    using 1 2 3 t by blast
next
  assume n: "3 \<le> length (mvp_joined s v i)"
  let ?f = "\<lambda>t. DISTANCE_KM (mvp_select s t)"
  let ?xs = "mvp_joined s v i"
  let ?rows = "map (mvp_select s) (take 3 (sort_key ?f ?xs))"
  let ?rest = "map (mvp_select s) (drop 3 (sort_key ?f ?xs))"
  note t = top3[OF n, of "mvp_select s" ?f]
  have 1: "fst (mvp_find_nearest_neighbors s v i) = ?rows"
    using up by (simp add: mvp_find_up mvp_ranked_def)
  have 2: "sorted (map DISTANCE_KM ?rows)"
    using sorted_mvp_rows[of s v i] by (simp add: mvp_ranked_def)
  have 3: "\<forall>r \<in> set ?rows. \<forall>c \<in> set ?rest. DISTANCE_KM r \<le> DISTANCE_KM c"
    using t by auto
  show "\<exists>rows rest.
              fst (mvp_find_nearest_neighbors s v i) = rows
              \<and> length rows = 3
              \<and> sorted (map DISTANCE_KM rows)
              \<and> mset rows + mset rest = mset (map (mvp_select s) (mvp_joined s v i))
              \<and> (\<forall>r \<in> set rows. \<forall>c \<in> set rest. DISTANCE_KM r \<le> DISTANCE_KM c)"
    using 1 2 3 t by blast
qed

lemma plain_empty_result_is_no_supply:
  assumes up: "fault s = None"
    and safe: "sql_literal_safe (facility.FACILITY_ID victim_record)" "sql_literal_safe item_name"
  shows "(app_having s (plain_condition (facility.FACILITY_ID victim_record) item_name) = [] \<longrightarrow>
            find_nearest_neighbors s (facility.FACILITY_ID victim_record) item_name = Inr []
            \<and> console s victim_record item_name = Inr [No_supply_found]
            \<and> (item_name \<noteq> [] \<longrightarrow>
                 chat s (Some (facility.FACILITY_ID victim_record)) (Some item_name)
                   = Inr (No_nearby_surplus item_name)))
       \<and> (mvp_joined s (facility.FACILITY_ID target) item = [] \<longrightarrow>
            mvp_find_nearest_neighbors s (facility.FACILITY_ID target) item = ([], [])
            \<and> mvp_console s target item = [No_supply_found]
            \<and> mvp_tactical s (facility.FACILITY_ID target) item = (No_surplus_for_transfer, []))"
  using up
  by (simp add: find_plain[OF safe] console_def chat_def app_ranked_def
        mvp_find_nearest_neighbors_def mvp_console_def mvp_tactical_def mvp_ranked_def)


text \<open>
  Claim C2, in the command-centre app, at the small network: the search for facility V
  with the item name \<^verbatim>\<open>x' OR source.FACILITY_ID = 'V' OR 'b'='c\<close>. The interpolated
  condition is read as three alternatives, the second of which holds for every row joined
  to V; the stock comparison is left in the third alone, which never holds. The rows
  returned include facility B with an available stock of 50. The MVP app, which binds the
  name as a value, returns no row.
\<close>

theorem quoted_item_name_returns_low_stock:
  "read_condition (app_condition ''V'' any_stock_item)
     = Condition [[Text_equal Source_facility_id (Text ''V''),
                   Text_equal Inv_item_name (Text ''x'')],
                  [Text_equal Source_facility_id (Text ''V'')],
                  [Text_equal (Text ''b'') (Text ''c''),
                   Number_greater Inv_closing_stock (Number 100)]]
   \<and> find_nearest_neighbors demo ''V'' any_stock_item
       = Inr [\<lparr>SAVIOR_NAME = ''RS A'', SAVIOR_LAT = 1 / 100, SAVIOR_LON = 0,
                AVAILABLE_STOCK = 150, DISTANCE_KM = 11 / 10\<rparr>,
              \<lparr>SAVIOR_NAME = ''RS B'', SAVIOR_LAT = 2 / 100, SAVIOR_LON = 0,
                AVAILABLE_STOCK = 50, DISTANCE_KM = 22 / 10\<rparr>,
              \<lparr>SAVIOR_NAME = ''RS C'', SAVIOR_LAT = 3 / 100, SAVIOR_LON = 0,
                AVAILABLE_STOCK = 300, DISTANCE_KM = 33 / 10\<rparr>]
   \<and> mvp_find_nearest_neighbors demo ''V'' any_stock_item = ([], [])"
  by code_simp

text \<open>
  Claim C4, in the command-centre app, at the small network with the stock recorded under
  the name "Ringer's Lactate": the search for facility V and that item. Four candidates
  pass the stock and distance filters (E, A, C and D in the order of the join), and the
  search raises: the apostrophe closes the literal of the interpolated statement and the
  closing quote opens one that never ends, so the statement does not compile. The MVP
  app, which binds the name as a value, returns the three closest candidates A, C and E.
\<close>

theorem apostrophe_item_name_raises_with_three_candidates:
  "read_condition (app_condition ''V'' ringers_lactate) = Compile_error
   \<and> map SAVIOR_NAME
         (map (app_select demo_ringers)
            (app_having demo_ringers (plain_condition ''V'' ringers_lactate)))
       = [''RS E'', ''RS A'', ''RS C'', ''RS D'']
   \<and> find_nearest_neighbors demo_ringers ''V'' ringers_lactate
       = Inl (StoreError ''SQL compilation error'')
   \<and> mvp_find_nearest_neighbors demo_ringers ''V'' ringers_lactate
       = ([\<lparr>SAVIOR_NAME = ''RS A'', SAVIOR_LAT = 1 / 100, SAVIOR_LON = 0,
              AVAILABLE_STOCK = 150, DISTANCE_KM = 11 / 10\<rparr>,
            \<lparr>SAVIOR_NAME = ''RS C'', SAVIOR_LAT = 3 / 100, SAVIOR_LON = 0,
              AVAILABLE_STOCK = 300, DISTANCE_KM = 33 / 10\<rparr>,
            \<lparr>SAVIOR_NAME = ''RS E'', SAVIOR_LAT = 4 / 100, SAVIOR_LON = 0,
              AVAILABLE_STOCK = 101, DISTANCE_KM = 44 / 10\<rparr>], [])"
  by code_simp

text \<open>
  Claim C8, in the command-centre app, at the small network: the search for facility V
  and the item name "Ringer's Lactate", which no stock row carries, so that no candidate
  passes the filters. The statement does not compile and the search raises instead of
  returning an empty sequence; the exception leaves the console and the chat handler, and
  no no-supply message is shown. The MVP app, which binds the name as a value, returns an
  empty sequence, and its callers report that no supply was found.
\<close>

theorem apostrophe_item_name_raises_with_no_candidate:
  "app_joined demo (plain_condition ''V'' ringers_lactate) = []
   \<and> find_nearest_neighbors demo ''V'' ringers_lactate
       = Inl (StoreError ''SQL compilation error'')
   \<and> console demo (demo_facility ''V'' 0) ringers_lactate
       = Inl (StoreError ''SQL compilation error'')
   \<and> chat demo (Some ''V'') (Some ringers_lactate)
       = Inl (StoreError ''SQL compilation error'')
   \<and> mvp_find_nearest_neighbors demo ''V'' ringers_lactate = ([], [])
   \<and> mvp_console demo (demo_facility ''V'' 0) ringers_lactate = [No_supply_found]
   \<and> mvp_tactical demo ''V'' ringers_lactate = (No_surplus_for_transfer, [])"
  by code_simp

text \<open>
  Claim C9, at a store that times out. In the command-centre app the exception leaves
  \<^verbatim>\<open>find_nearest_neighbors\<close> and then the console and the chat handler, neither of
  which catches it; in the MVP app the search catches it, shows it, and returns an empty
  frame, and its callers go on to the no-supply branch.
\<close>

theorem store_failure_uncaught_in_command_centre:
  "find_nearest_neighbors demo_down ''V'' ''Oxytocin Injection'' = Inl (StoreError ''timeout'')
   \<and> console demo_down (demo_facility ''V'' 0) ''Oxytocin Injection'' = Inl (StoreError ''timeout'')
   \<and> chat demo_down (Some ''V'') (Some ''Oxytocin Injection'') = Inl (StoreError ''timeout'')
   \<and> mvp_find_nearest_neighbors demo_down ''V'' ''Oxytocin Injection'' = ([], [Sql_error (StoreError ''timeout'')])
   \<and> mvp_console demo_down (demo_facility ''V'' 0) ''Oxytocin Injection''
       = [Sql_error (StoreError ''timeout''), No_supply_found]
   \<and> mvp_tactical demo_down ''V'' ''Oxytocin Injection''
       = (No_surplus_for_transfer, [Sql_error (StoreError ''timeout'')])"
  by (simp add: demo_down_def demo_def find_nearest_neighbors_def console_def chat_def
        mvp_find_nearest_neighbors_def mvp_console_def mvp_tactical_def demo_facility_def)

section \<open>Properties of item-name resolution\<close>

lemma first_match_None: "first_match q xs = None \<longleftrightarrow> (\<forall>x \<in> set xs. \<not> item_matches q x)"
  by (induction xs) auto

lemma first_match_Some:
  "first_match q xs = Some r \<Longrightarrow>
     \<exists>ys zs. xs = ys @ r # zs \<and> item_matches q r \<and> (\<forall>y \<in> set ys. \<not> item_matches q y)"
proof (induction xs)
  case Nil
  then show ?case by simp
next
  case (Cons x xs)
  show ?case
  proof (cases "item_matches q x")
    case True
    with Cons.prems have "r = x" by simp
    with True show ?thesis by (intro exI[of _ "[]"] exI[of _ xs]) simp
  next
    case False
    with Cons.prems have "first_match q xs = Some r" by simp
    from Cons.IH[OF this] obtain ys zs where
      "xs = ys @ r # zs" "item_matches q r" "\<forall>y \<in> set ys. \<not> item_matches q y" by blast
    with False show ?thesis by (intro exI[of _ "x # ys"] exI[of _ zs]) simp
  qed
qed

lemma set_sorted_by_len_desc: "set (sorted_by_len_desc xs) = set xs"
  by (simp add: sorted_by_len_desc_def)

lemma sorted_by_len_desc_later_shorter:
  assumes "sorted_by_len_desc xs = ys @ r # zs" "z \<in> set zs"
  shows "length z \<le> length r"
proof -
  have "sorted (map length (rev (sorted_by_len_desc xs)))"
    by (simp add: sorted_by_len_desc_def del: map_map)
  then have "sorted (map length (rev zs) @ length r # map length (rev ys))"
    using assms(1) by simp
  then show ?thesis using assms(2) by (auto simp: sorted_append)
qed

lemma run_chat_action_longest:
  assumes "run_chat_action q items = Some r"
  shows "r \<in> set items \<and> item_matches (lower q) r
       \<and> (\<forall>i \<in> set items. item_matches (lower q) i \<longrightarrow> length i \<le> length r)"
proof -
  from assms obtain ys zs where
    d: "sorted_by_len_desc items = ys @ r # zs" and m: "item_matches (lower q) r"
    and n: "\<forall>y \<in> set ys. \<not> item_matches (lower q) y"
    unfolding run_chat_action_def using first_match_Some by blast
  have s: "set items = set ys \<union> {r} \<union> set zs"
    using set_sorted_by_len_desc[of items] d by auto
  show ?thesis
  proof (intro conjI ballI impI)
    show "r \<in> set items" using s by simp
    show "item_matches (lower q) r" by (rule m)
  next
    fix i assume "i \<in> set items" "item_matches (lower q) i"
    then have "i = r \<or> i \<in> set zs" using s n by auto
    then show "length i \<le> length r"
      using sorted_by_len_desc_later_shorter[OF d] by auto
  qed
qed

lemma run_chat_action_None:
  "run_chat_action q items = None \<longleftrightarrow> (\<forall>i \<in> set items. \<not> item_matches (lower q) i)"
  by (simp add: run_chat_action_def first_match_None set_sorted_by_len_desc)

lemma lower_char_idem: "lower_char (lower_char c) = lower_char c"
  by (simp add: lower_char_def)

lemma lower_idem: "lower (lower x) = lower x"
  by (simp add: lower_def lower_char_idem)

lemma lower_char_space: "lower_char c = CHR '' '' \<longleftrightarrow> c = CHR '' ''"
  by (simp add: lower_char_def)

lemma simple_name_lower: "simple_name (lower item) = simple_name item"
  by (simp add: simple_name_def lower_def takeWhile_map comp_def lower_char_space lower_char_idem)

lemma item_matches_lower: "item_matches q (lower item) = item_matches q item"
  by (simp add: item_matches_def simple_name_lower lower_idem)


lemma simple_name_cong: "lower item = lower item' \<Longrightarrow> simple_name item = simple_name item'"
  by (metis simple_name_lower)
lemma item_matches_cong:
  assumes "lower item = lower item'"
  shows "item_matches q item = item_matches q item'"
proof -
  have "simple_name item = simple_name item'" using assms by (rule simple_name_cong)
  with assms show ?thesis by (simp only: item_matches_def)
qed

lemma simple_name_prefix: "prefix (simple_name item) (lower item)"
proof -
  have "prefix (takeWhile (\<lambda>c. c \<noteq> CHR '' '') item) item"
    by (metis prefixI takeWhile_dropWhile_id)
  then show ?thesis unfolding simple_name_def lower_def by (rule map_mono_prefix)
qed

lemma item_matches_first_word: "item_matches q item = sublist (simple_name item) q"
proof -
  have "sublist (simple_name item) q" if "sublist (lower item) q"
    using that simple_name_prefix[of item] by (meson prefix_imp_sublist sublist_order.order_trans)
  then show ?thesis by (auto simp: item_matches_def)
qed

text \<open>
  Claim C6, as stated, fails. Against a list holding "Amoxicillin", "Amoxicillin 500mg"
  and "Amoxicillin 250mg Suspension", the input "amoxicillin 500mg" contains the first two
  names and not the third, and the resolver returns the third. Against the generator's
  item list, the input "amoxicillin 500mg and azithromycin for hiv" contains
  "Amoxicillin 500mg" and not "HIV Rapid Test Kit", and the resolver returns the latter.
\<close>

theorem longest_occurring_name_not_returned:
  "sublist (lower ''Amoxicillin'') (lower ''amoxicillin 500mg'')
   \<and> sublist (lower ''Amoxicillin 500mg'') (lower ''amoxicillin 500mg'')
   \<and> \<not> sublist (lower ''Amoxicillin 250mg Suspension'') (lower ''amoxicillin 500mg'')
   \<and> run_chat_action ''amoxicillin 500mg''
        [''Amoxicillin'', ''Amoxicillin 500mg'', ''Amoxicillin 250mg Suspension'']
      = Some ''Amoxicillin 250mg Suspension''
   \<and> sublist (lower ''Amoxicillin 500mg'') (lower ''amoxicillin 500mg and azithromycin for hiv'')
   \<and> \<not> sublist (lower ''HIV Rapid Test Kit'') (lower ''amoxicillin 500mg and azithromycin for hiv'')
   \<and> run_chat_action ''amoxicillin 500mg and azithromycin for hiv'' (map name MASTER_ITEMS)
      = Some ''HIV Rapid Test Kit''"
  by code_simp

text \<open>
  Claim C6, amended. The local resolver matches without regard to letter case: two inputs
  that differ only in case resolve to the same item, and whether an item matches does not
  depend on the case of the item's name. An item matches exactly when its lowered first
  word occurs in the lowered input, which is the case whenever its whole lowered name
  occurs there. The item returned is a known item that matches, of greatest length among
  the known items that match; so no known name that occurs in the input is longer than the
  item returned, and some item is returned whenever one matches. The input
  "need amoxicillin 500mg urgently" resolves to "Amoxicillin 500mg", against the
  generator's item list and against a list that also holds the shorter name "Amoxicillin".
\<close>

theorem resolver_ignores_case_and_prefers_longest_first_word_match:
  "(lower q = lower q' \<longrightarrow> run_chat_action q valid_items = run_chat_action q' valid_items)
   \<and> (lower item = lower item' \<longrightarrow>
        item_matches (lower user_query) item = item_matches (lower user_query) item')
   \<and> item_matches (lower user_query) item = sublist (simple_name item) (lower user_query)
   \<and> (sublist (lower item) (lower user_query) \<longrightarrow> sublist (simple_name item) (lower user_query))
   \<and> (\<forall>r. run_chat_action user_query valid_items = Some r \<longrightarrow>
          r \<in> set valid_items \<and> sublist (simple_name r) (lower user_query)
          \<and> (\<forall>i \<in> set valid_items.
                sublist (simple_name i) (lower user_query) \<longrightarrow> length i \<le> length r)
          \<and> (\<forall>i \<in> set valid_items.
                sublist (lower i) (lower user_query) \<longrightarrow> length i \<le> length r))
   \<and> ((\<exists>i \<in> set valid_items. sublist (simple_name i) (lower user_query)) \<longrightarrow>
        (\<exists>r. run_chat_action user_query valid_items = Some r))
   \<and> run_chat_action ''need amoxicillin 500mg urgently'' (map name MASTER_ITEMS)
       = Some ''Amoxicillin 500mg''
   \<and> run_chat_action ''need amoxicillin 500mg urgently'' [''Amoxicillin'', ''Amoxicillin 500mg'']
       = Some ''Amoxicillin 500mg''"
proof -
  have a: "lower q = lower q' \<longrightarrow> run_chat_action q valid_items = run_chat_action q' valid_items"
    by (simp add: run_chat_action_def)
  have b: "lower item = lower item' \<longrightarrow>
        item_matches (lower user_query) item = item_matches (lower user_query) item'"
    using item_matches_cong by blast
  have c: "item_matches (lower user_query) item = sublist (simple_name item) (lower user_query)"
    by (rule item_matches_first_word)
  have d: "sublist (lower item) (lower user_query) \<longrightarrow> sublist (simple_name item) (lower user_query)"
    using simple_name_prefix[of item] by (meson prefix_imp_sublist sublist_order.order_trans)
  have full: "sublist (simple_name i) (lower user_query)" if "sublist (lower i) (lower user_query)" for i
    using that simple_name_prefix[of i] by (meson prefix_imp_sublist sublist_order.order_trans)
  have e: "\<forall>r. run_chat_action user_query valid_items = Some r \<longrightarrow>
          r \<in> set valid_items \<and> sublist (simple_name r) (lower user_query)
          \<and> (\<forall>i \<in> set valid_items.
                sublist (simple_name i) (lower user_query) \<longrightarrow> length i \<le> length r)
          \<and> (\<forall>i \<in> set valid_items.
                sublist (lower i) (lower user_query) \<longrightarrow> length i \<le> length r)"
  proof (intro allI impI)
    fix r assume r: "run_chat_action user_query valid_items = Some r"
    note L = run_chat_action_longest[OF r, unfolded item_matches_first_word]
    have l1: "\<forall>i \<in> set valid_items.
                sublist (simple_name i) (lower user_query) \<longrightarrow> length i \<le> length r"
      using L by blast
    have l2: "\<forall>i \<in> set valid_items.
                sublist (lower i) (lower user_query) \<longrightarrow> length i \<le> length r"
      using l1 full by blast
    show "r \<in> set valid_items \<and> sublist (simple_name r) (lower user_query)
          \<and> (\<forall>i \<in> set valid_items.
                sublist (simple_name i) (lower user_query) \<longrightarrow> length i \<le> length r)
          \<and> (\<forall>i \<in> set valid_items.
                sublist (lower i) (lower user_query) \<longrightarrow> length i \<le> length r)"
      using L l1 l2 by blast
  qed
  have f: "(\<exists>i \<in> set valid_items. sublist (simple_name i) (lower user_query)) \<longrightarrow>
        (\<exists>r. run_chat_action user_query valid_items = Some r)"
    using run_chat_action_None[of user_query valid_items, unfolded item_matches_first_word]
    by (cases "run_chat_action user_query valid_items") auto
  have g: "run_chat_action ''need amoxicillin 500mg urgently'' (map name MASTER_ITEMS)
       = Some ''Amoxicillin 500mg''"
    by code_simp
  have h: "run_chat_action ''need amoxicillin 500mg urgently'' [''Amoxicillin'', ''Amoxicillin 500mg'']
       = Some ''Amoxicillin 500mg''"
    by code_simp
  show ?thesis by (intro conjI a b c d e f g h)
qed

theorem resolver_ignores_case_and_prefers_longest_first_word_match_witness:
  "lower ''NEED Amoxicillin 500MG urgently'' = lower ''need amoxicillin 500mg urgently''
   \<and> run_chat_action ''NEED Amoxicillin 500MG urgently'' [''Amoxicillin'', ''Amoxicillin 500mg'']
       = run_chat_action ''need amoxicillin 500mg urgently'' [''Amoxicillin'', ''Amoxicillin 500mg'']
   \<and> lower ''AMOXICILLIN 500MG'' = lower ''Amoxicillin 500mg''
   \<and> item_matches (lower ''NEED Amoxicillin 500MG urgently'') ''AMOXICILLIN 500MG''
       = item_matches (lower ''NEED Amoxicillin 500MG urgently'') ''Amoxicillin 500mg''
   \<and> sublist (lower ''AMOXICILLIN 500MG'') (lower ''NEED Amoxicillin 500MG urgently'')
   \<and> sublist (simple_name ''AMOXICILLIN 500MG'') (lower ''NEED Amoxicillin 500MG urgently'')
   \<and> run_chat_action ''NEED Amoxicillin 500MG urgently'' [''Amoxicillin'', ''Amoxicillin 500mg'']
       = Some ''Amoxicillin 500mg''
   \<and> ''Amoxicillin'' \<in> set [''Amoxicillin'', ''Amoxicillin 500mg'']
   \<and> sublist (simple_name ''Amoxicillin'') (lower ''NEED Amoxicillin 500MG urgently'')
   \<and> sublist (simple_name ''Amoxicillin 500mg'') (lower ''NEED Amoxicillin 500MG urgently'')
   \<and> length ''Amoxicillin'' \<le> length ''Amoxicillin 500mg''"
proof -
  have h1: "lower ''NEED Amoxicillin 500MG urgently'' = lower ''need amoxicillin 500mg urgently''"
    by code_simp
  have h2: "lower ''AMOXICILLIN 500MG'' = lower ''Amoxicillin 500mg''" by code_simp
  have h3: "sublist (lower ''AMOXICILLIN 500MG'') (lower ''NEED Amoxicillin 500MG urgently'')"
    by code_simp
  have e1: "run_chat_action ''NEED Amoxicillin 500MG urgently'' [''Amoxicillin'', ''Amoxicillin 500mg'']
       = Some ''Amoxicillin 500mg''"
    by code_simp
  have e2: "sublist (simple_name ''Amoxicillin'') (lower ''NEED Amoxicillin 500MG urgently'')"
    by code_simp
  have e3: "''Amoxicillin'' \<in> set [''Amoxicillin'', ''Amoxicillin 500mg'']" by simp
  note T = resolver_ignores_case_and_prefers_longest_first_word_match
             [where q = "''NEED Amoxicillin 500MG urgently''"
                and q' = "''need amoxicillin 500mg urgently''"
                and user_query = "''NEED Amoxicillin 500MG urgently''"
                and valid_items = "[''Amoxicillin'', ''Amoxicillin 500mg'']"
                and item = "''AMOXICILLIN 500MG''" and item' = "''Amoxicillin 500mg''"]
  show ?thesis using T h1 h2 h3 e1 e2 e3 by blast
qed

text \<open>
  Claim C10, as stated, at the generator's item list and the query "hiv": the first
  word of "IV Cannula" occurs in the query, and the item returned is another one.
\<close>

theorem first_word_item_not_returned:
  "''IV Cannula'' \<in> set (map name MASTER_ITEMS)
   \<and> sublist (simple_name ''IV Cannula'') (lower ''hiv'')
   \<and> run_chat_action ''hiv'' (map name MASTER_ITEMS) = Some ''HIV Rapid Test Kit''
   \<and> ''HIV Rapid Test Kit'' \<noteq> ''IV Cannula''"
  by code_simp

text \<open>
  Claim C10, amended. The resolver returns nothing exactly when neither the lowered full
  name nor the lowered first word of any known item occurs in the lowered query.
  Otherwise it returns a known item whose full name or first word occurs, of greatest
  length among those; an item whose first word occurs is the one returned when no other
  item at least as long matches, as "Metformin 500mg" is for the query "metformin", in
  which its full name does not occur.
\<close>

theorem resolver_matches_first_word:
  "(run_chat_action user_query valid_items = None \<longleftrightarrow>
      (\<forall>i \<in> set valid_items. \<not> sublist (lower i) (lower user_query)
                             \<and> \<not> sublist (simple_name i) (lower user_query)))
   \<and> (\<forall>r. run_chat_action user_query valid_items = Some r \<longrightarrow>
          r \<in> set valid_items
          \<and> (sublist (lower r) (lower user_query) \<or> sublist (simple_name r) (lower user_query))
          \<and> (\<forall>i \<in> set valid_items.
                sublist (lower i) (lower user_query) \<or> sublist (simple_name i) (lower user_query)
                \<longrightarrow> length i \<le> length r))
   \<and> (item \<in> set valid_items \<and> sublist (simple_name item) (lower user_query)
        \<and> (\<forall>j \<in> set valid_items. length item \<le> length j \<and> j \<noteq> item
               \<longrightarrow> \<not> item_matches (lower user_query) j)
        \<longrightarrow> run_chat_action user_query valid_items = Some item)
   \<and> run_chat_action ''metformin'' (map name MASTER_ITEMS) = Some ''Metformin 500mg''
   \<and> \<not> sublist (lower ''Metformin 500mg'') (lower ''metformin'')"
proof (intro conjI allI impI)
  show "run_chat_action user_query valid_items = None \<longleftrightarrow>
      (\<forall>i \<in> set valid_items. \<not> sublist (lower i) (lower user_query)
                             \<and> \<not> sublist (simple_name i) (lower user_query))"
    by (simp add: run_chat_action_None item_matches_def)
next
  fix r assume r: "run_chat_action user_query valid_items = Some r"
  note L = run_chat_action_longest[OF r]
  show "r \<in> set valid_items" using L by simp
  show "sublist (lower r) (lower user_query) \<or> sublist (simple_name r) (lower user_query)"
    using L by (simp add: item_matches_def)
  show "\<forall>i \<in> set valid_items.
          sublist (lower i) (lower user_query) \<or> sublist (simple_name i) (lower user_query)
          \<longrightarrow> length i \<le> length r"
    using L by (simp add: item_matches_def)
next
  assume a: "item \<in> set valid_items \<and> sublist (simple_name item) (lower user_query)
        \<and> (\<forall>j \<in> set valid_items. length item \<le> length j \<and> j \<noteq> item
               \<longrightarrow> \<not> item_matches (lower user_query) j)"
  then have m: "item_matches (lower user_query) item" by (simp add: item_matches_def)
  with a have "run_chat_action user_query valid_items \<noteq> None"
    by (auto simp: run_chat_action_None)
  then obtain r where r: "run_chat_action user_query valid_items = Some r" by blast
  note L = run_chat_action_longest[OF r]
  have "length item \<le> length r" using L a m by blast
  then have "r = item" using L a by blast
  then show "run_chat_action user_query valid_items = Some item" using r by simp
next
  show "run_chat_action ''metformin'' (map name MASTER_ITEMS) = Some ''Metformin 500mg''"
    by code_simp
next
  show "\<not> sublist (lower ''Metformin 500mg'') (lower ''metformin'')"
    by code_simp
qed

theorem resolver_matches_first_word_witness:
  "''Metformin 500mg'' \<in> set (map name MASTER_ITEMS)
   \<and> sublist (simple_name ''Metformin 500mg'') (lower ''metformin'')
   \<and> list_all (\<lambda>j. \<not> (length ''Metformin 500mg'' \<le> length j \<and> j \<noteq> ''Metformin 500mg''
                         \<and> item_matches (lower ''metformin'') j))
        (map name MASTER_ITEMS)
   \<and> run_chat_action ''metformin'' (map name MASTER_ITEMS) = Some ''Metformin 500mg''
   \<and> run_chat_action ''aspirin'' (map name MASTER_ITEMS) = None
   \<and> list_all (\<lambda>i. \<not> sublist (lower i) (lower ''aspirin'')
                     \<and> \<not> sublist (simple_name i) (lower ''aspirin''))
        (map name MASTER_ITEMS)"
proof -
  have h1: "''Metformin 500mg'' \<in> set (map name MASTER_ITEMS)" by code_simp
  have h2: "sublist (simple_name ''Metformin 500mg'') (lower ''metformin'')" by code_simp
  have h3: "list_all (\<lambda>j. \<not> (length ''Metformin 500mg'' \<le> length j \<and> j \<noteq> ''Metformin 500mg''
                         \<and> item_matches (lower ''metformin'') j))
        (map name MASTER_ITEMS)"
    by code_simp
  have h4: "run_chat_action ''aspirin'' (map name MASTER_ITEMS) = None" by code_simp
  note T = resolver_matches_first_word
             [where user_query = "''metformin''" and valid_items = "map name MASTER_ITEMS"
                and item = "''Metformin 500mg''"]
  note U = resolver_matches_first_word
             [where user_query = "''aspirin''" and valid_items = "map name MASTER_ITEMS"]
  have a: "run_chat_action ''metformin'' (map name MASTER_ITEMS) = Some ''Metformin 500mg''"
    using T h1 h2 h3 unfolding list_all_iff by blast
  have b: "list_all (\<lambda>i. \<not> sublist (lower i) (lower ''aspirin'')
                     \<and> \<not> sublist (simple_name i) (lower ''aspirin''))
        (map name MASTER_ITEMS)"
    using U h4 unfolding list_all_iff by blast
  show ?thesis using a b h1 h2 h3 h4 by blast
qed

section \<open>Properties of the inventory generator\<close>


lemma randint_range:
  assumes "a \<le> b"
  shows "a \<le> fst (randint w a b i) \<and> fst (randint w a b i) \<le> b"
proof -
  have "0 < nat (b - a + 1)" using assms by simp
  then have "draws w i mod nat (b - a + 1) < nat (b - a + 1)" by simp
  then have "int (draws w i mod nat (b - a + 1)) < b - a + 1" using assms by linarith
  then show ?thesis by (simp add: randint_def)
qed

lemma item_rows_step:
  obtains opn rcv iss lead_time i' where
    "100 \<le> opn" "opn \<le> 400" "0 \<le> rcv" "rcv \<le> 30"
    "5 \<le> iss" "iss \<le> 25"
    "item_rows w vs ss fid (x # items) (rows, i) =
       item_rows w vs ss fid items
         (rows @ [make_row w (length rows) fid x
                    (scenario vs ss fid x (opn, rcv, iss)) lead_time], i')"
proof -
  obtain opn i1 where o: "randint w 100 400 i = (opn, i1)" by (cases "randint w 100 400 i")
  obtain rcv i2 where r: "randint w 0 30 i1 = (rcv, i2)" by (cases "randint w 0 30 i1")
  obtain iss i3 where s: "randint w 5 25 i2 = (iss, i3)" by (cases "randint w 5 25 i2")
  obtain lead_time i4 where l: "randint w 2 6 i3 = (lead_time, i4)" by (cases "randint w 2 6 i3")
  have ro: "100 \<le> opn \<and> opn \<le> 400" using randint_range[of 100 400 w i] o by simp
  have rr: "0 \<le> rcv \<and> rcv \<le> 30" using randint_range[of 0 30 w i1] r by simp
  have rs: "5 \<le> iss \<and> iss \<le> 25" using randint_range[of 5 25 w i2] s by simp
  have "item_rows w vs ss fid (x # items) (rows, i) =
       item_rows w vs ss fid items
         (rows @ [make_row w (length rows) fid x
                    (scenario vs ss fid x (opn, rcv, iss)) lead_time], i4)"
    by (simp add: o r s l)
  then show thesis using that ro rr rs by blast
qed

lemma item_rows_mono:
  "set rows \<subseteq> set (fst (item_rows w vs ss fid items (rows, i)))"
proof (induction items arbitrary: rows i)
  case Nil
  then show ?case by simp
next
  case (Cons x items)
  obtain row i' where
    step: "item_rows w vs ss fid (x # items) (rows, i) = item_rows w vs ss fid items (rows @ [row], i')"
    using item_rows_step[of w vs ss fid x items rows i] by metis
  have "set (rows @ [row]) \<subseteq> set (fst (item_rows w vs ss fid items (rows @ [row], i')))"
    by (rule Cons.IH)
  then show ?case unfolding step by auto
qed

lemma item_rows_inv:
  assumes new: "\<And>n item opn rcv iss lead_time.
      \<lbrakk>100 \<le> opn; opn \<le> 400; 0 \<le> rcv; rcv \<le> 30; 5 \<le> iss; iss \<le> 25\<rbrakk>
      \<Longrightarrow> Q (make_row w n fid item (scenario vs ss fid item (opn, rcv, iss)) lead_time)"
    and old: "\<forall>r \<in> set rows. Q r"
  shows "\<forall>r \<in> set (fst (item_rows w vs ss fid items (rows, i))). Q r"
  using old
proof (induction items arbitrary: rows i)
  case Nil
  then show ?case by simp
next
  case (Cons x items)
  obtain opn rcv iss lead_time i' where
    rng: "100 \<le> opn" "opn \<le> 400" "0 \<le> rcv" "rcv \<le> 30"
         "5 \<le> iss" "iss \<le> 25"
    and step: "item_rows w vs ss fid (x # items) (rows, i) =
       item_rows w vs ss fid items
         (rows @ [make_row w (length rows) fid x
                    (scenario vs ss fid x (opn, rcv, iss)) lead_time], i')"
    by (rule item_rows_step)
  let ?row = "make_row w (length rows) fid x (scenario vs ss fid x (opn, rcv, iss)) lead_time"
  have "Q ?row" using new rng by blast
  then have "\<forall>r \<in> set (rows @ [?row]). Q r" using Cons.prems by simp
  from Cons.IH[OF this] show ?case unfolding step .
qed

lemma make_row_ids:
  "inventory.FACILITY_ID (make_row w n fid item figures lead_time) = fid"
  "ITEM_NAME (make_row w n fid item figures lead_time) = name item"
  by (simp_all add: make_row_def split: prod.splits)

lemma item_rows_has:
  assumes "item \<in> set items"
  shows "\<exists>r \<in> set (fst (item_rows w vs ss fid items (rows, i))).
           inventory.FACILITY_ID r = fid \<and> ITEM_NAME r = name item"
  using assms
proof (induction items arbitrary: rows i)
  case Nil
  then show ?case by simp
next
  case (Cons x items)
  obtain figures lead_time i' where
    step: "item_rows w vs ss fid (x # items) (rows, i) =
       item_rows w vs ss fid items (rows @ [make_row w (length rows) fid x figures lead_time], i')"
    using item_rows_step[of w vs ss fid x items rows i] by metis
  let ?row = "make_row w (length rows) fid x figures lead_time"
  show ?case
  proof (cases "item = x")
    case True
    have "?row \<in> set (fst (item_rows w vs ss fid items (rows @ [?row], i')))"
      using item_rows_mono[of "rows @ [?row]" w vs ss fid items i'] by auto
    then show ?thesis unfolding step using True make_row_ids by blast
  next
    case False
    then have "item \<in> set items" using Cons.prems by simp
    from Cons.IH[OF this] show ?thesis unfolding step .
  qed
qed


lemma oxytocin_first: "name (MASTER_ITEMS ! 0) = ''Oxytocin Injection''"
  by (simp add: MASTER_ITEMS_def mk_item_def)

lemma select_items_has_oxytocin:
  assumes "fid \<in> set vs \<or> fid \<in> set ss"
  shows "\<exists>item \<in> set (fst (select_items w vs ss fid i)). name item = ''Oxytocin Injection''"
proof -
  obtain num_items i1 where n: "randint w 20 25 i = (num_items, i1)" by (cases "randint w 20 25 i")
  obtain selected i2 where s: "sample w MASTER_ITEMS (nat num_items) i1 = (selected, i2)"
    by (cases "sample w MASTER_ITEMS (nat num_items) i1")
  show ?thesis
  proof (cases "''Oxytocin Injection'' \<in> set (map name selected)")
    case True
    then show ?thesis using assms by (auto simp: select_items_def n s)
  next
    case False
    then have "fst (select_items w vs ss fid i) = selected @ [MASTER_ITEMS ! 0]"
      using assms by (simp add: select_items_def n s)
    then show ?thesis using oxytocin_first by simp
  qed
qed

lemma facility_rows_step:
  obtains selected rows' i' where
    "selected = fst (select_items w vs ss (facility.FACILITY_ID fac) i)"
    "rows' = fst (item_rows w vs ss (facility.FACILITY_ID fac) selected (rows, snd (select_items w vs ss (facility.FACILITY_ID fac) i)))"
    "facility_rows w vs ss (fac # facs) (rows, i) = facility_rows w vs ss facs (rows', i')"
proof -
  obtain selected j where a: "select_items w vs ss (facility.FACILITY_ID fac) i = (selected, j)"
    by (cases "select_items w vs ss (facility.FACILITY_ID fac) i")
  obtain rows' i' where b: "item_rows w vs ss (facility.FACILITY_ID fac) selected (rows, j) = (rows', i')"
    by (cases "item_rows w vs ss (facility.FACILITY_ID fac) selected (rows, j)")
  have "facility_rows w vs ss (fac # facs) (rows, i) = facility_rows w vs ss facs (rows', i')"
    by (simp add: a b)
  then show thesis using that a b by simp
qed

lemma facility_rows_mono:
  "set rows \<subseteq> set (fst (facility_rows w vs ss facs (rows, i)))"
proof (induction facs arbitrary: rows i)
  case Nil
  then show ?case by simp
next
  case (Cons fac facs)
  obtain selected rows' i' where
    s: "rows' = fst (item_rows w vs ss (facility.FACILITY_ID fac) selected (rows, snd (select_items w vs ss (facility.FACILITY_ID fac) i)))"
    and step: "facility_rows w vs ss (fac # facs) (rows, i) = facility_rows w vs ss facs (rows', i')"
    by (rule facility_rows_step)
  have "set rows \<subseteq> set rows'" unfolding s by (rule item_rows_mono)
  also have "\<dots> \<subseteq> set (fst (facility_rows w vs ss facs (rows', i')))" by (rule Cons.IH)
  finally show ?case unfolding step .
qed

lemma facility_rows_inv:
  assumes new: "\<And>n fid item opn rcv iss lead_time.
      \<lbrakk>100 \<le> opn; opn \<le> 400; 0 \<le> rcv; rcv \<le> 30; 5 \<le> iss; iss \<le> 25\<rbrakk>
      \<Longrightarrow> Q (make_row w n fid item (scenario vs ss fid item (opn, rcv, iss)) lead_time)"
    and old: "\<forall>r \<in> set rows. Q r"
  shows "\<forall>r \<in> set (fst (facility_rows w vs ss facs (rows, i))). Q r"
  using old
proof (induction facs arbitrary: rows i)
  case Nil
  then show ?case by simp
next
  case (Cons fac facs)
  obtain selected rows' i' where
    s: "rows' = fst (item_rows w vs ss (facility.FACILITY_ID fac) selected (rows, snd (select_items w vs ss (facility.FACILITY_ID fac) i)))"
    and step: "facility_rows w vs ss (fac # facs) (rows, i) = facility_rows w vs ss facs (rows', i')"
    by (rule facility_rows_step)
  have "\<forall>r \<in> set rows'. Q r"
    unfolding s using new Cons.prems by (intro item_rows_inv) auto
  from Cons.IH[OF this] show ?case unfolding step .
qed

lemma facility_rows_has:
  assumes "fac \<in> set facs"
    and "facility.FACILITY_ID fac \<in> set vs \<or> facility.FACILITY_ID fac \<in> set ss"
  shows "\<exists>r \<in> set (fst (facility_rows w vs ss facs (rows, i))).
           inventory.FACILITY_ID r = facility.FACILITY_ID fac \<and> ITEM_NAME r = ''Oxytocin Injection''"
  using assms(1)
proof (induction facs arbitrary: rows i)
  case Nil
  then show ?case by simp
next
  case (Cons x facs)
  obtain selected rows' i' where
    sel: "selected = fst (select_items w vs ss (facility.FACILITY_ID x) i)"
    and s: "rows' = fst (item_rows w vs ss (facility.FACILITY_ID x) selected (rows, snd (select_items w vs ss (facility.FACILITY_ID x) i)))"
    and step: "facility_rows w vs ss (x # facs) (rows, i) = facility_rows w vs ss facs (rows', i')"
    by (rule facility_rows_step)
  show ?case
  proof (cases "fac = x")
    case True
    obtain item where "item \<in> set selected" "name item = ''Oxytocin Injection''"
      unfolding sel using select_items_has_oxytocin[OF assms(2), of w i] True by auto
    then obtain r where "r \<in> set rows'" "inventory.FACILITY_ID r = facility.FACILITY_ID x"
        "ITEM_NAME r = ''Oxytocin Injection''"
      unfolding s using item_rows_has[of item selected w vs ss "facility.FACILITY_ID x" rows] by metis
    moreover have "set rows' \<subseteq> set (fst (facility_rows w vs ss facs (rows', i')))"
      by (rule facility_rows_mono)
    ultimately show ?thesis unfolding step using True by blast
  next
    case False
    then have "fac \<in> set facs" using Cons.prems by simp
    from Cons.IH[OF this] show ?thesis unfolding step .
  qed
qed


lemma find_savior_total:
  assumes "vid \<in> facility.FACILITY_ID ` set df"
  shows "\<exists>n. find_savior w df vid = Inr n"
proof -
  from assms have "find (\<lambda>r. facility.FACILITY_ID r = vid) df \<noteq> None"
    by (auto simp: find_None_iff)
  then show ?thesis by (auto simp: find_savior_def split: option.splits)
qed

lemma collect_saviors_total:
  assumes "set vids \<subseteq> facility.FACILITY_ID ` set df"
  shows "\<exists>ids. collect_saviors w df vids acc = Inr ids"
  using assms
proof (induction vids arbitrary: acc)
  case Nil
  show ?case by simp
next
  case (Cons vid vids)
  obtain n where n: "find_savior w df vid = Inr n"
    using find_savior_total[of vid df w] Cons.prems by auto
  have "set vids \<subseteq> facility.FACILITY_ID ` set df" using Cons.prems by simp
  from Cons.IH[OF this] show ?case by (simp add: n)
qed


lemma victim_ids_known: "set (victim_ids_of df) \<subseteq> facility.FACILITY_ID ` set df"
  by (auto simp: victim_ids_of_def dest: in_set_takeD)

lemma generate_inventory_total: "\<exists>rep. generate_inventory w input = Inr rep"
proof (cases input)
  case None
  then show ?thesis by (simp add: generate_inventory_def)
next
  case (Some df)
  obtain ss where "collect_saviors w df (victim_ids_of df) [] = Inr ss"
    using collect_saviors_total[OF victim_ids_known] by blast
  then show ?thesis using Some by (simp add: generate_inventory_def split: prod.splits)
qed

lemma written_rows_generate:
  assumes "collect_saviors w df (victim_ids_of df) [] = Inr ss"
  shows "written_rows (generate_inventory w (Some df))
           = fst (facility_rows w (victim_ids_of df) ss df ([], 0))"
  using assms by (simp add: generate_inventory_def written_rows_def split: prod.splits)

lemma written_rows_none: "written_rows (generate_inventory w None) = []"
  by (simp add: generate_inventory_def written_rows_def)





lemma make_row_figures:
  "figures_of (make_row w n fid item (opn, rcv, iss) lead_time)
     = (fid, opn, rcv, iss, max 0 (opn + rcv - iss))"
  by (simp add: make_row_def figures_of_def)

lemma scenario_cases:
  "scenario vs ss fid item (opn, rcv, iss) =
     (if name item = ''Oxytocin Injection'' \<and> fid \<in> set vs then (10, 0, 10)
      else if name item = ''Oxytocin Injection'' \<and> fid \<in> set ss then (600, 0, 5)
      else (opn, rcv, iss))"
  by (simp add: scenario_def)

lemma written_rows_figures:
  assumes ss: "collect_saviors w df (victim_ids_of df) [] = Inr ss"
    and r: "r \<in> set (written_rows (generate_inventory w (Some df)))"
  shows "(if ITEM_NAME r = ''Oxytocin Injection''
             \<and> inventory.FACILITY_ID r \<in> set (victim_ids_of df)
          then figures_of r = (inventory.FACILITY_ID r, 10, 0, 10, 0)
          else if ITEM_NAME r = ''Oxytocin Injection'' \<and> inventory.FACILITY_ID r \<in> set ss
          then figures_of r = (inventory.FACILITY_ID r, 600, 0, 5, 595)
          else 100 \<le> OPENING_STOCK r \<and> OPENING_STOCK r \<le> 400
               \<and> 0 \<le> RECEIVED_QTY r \<and> RECEIVED_QTY r \<le> 30
               \<and> 5 \<le> ISSUED_QTY r \<and> ISSUED_QTY r \<le> 25)"
proof -
  let ?vs = "victim_ids_of df"
  let ?Q = "\<lambda>r. if ITEM_NAME r = ''Oxytocin Injection''
             \<and> inventory.FACILITY_ID r \<in> set ?vs
          then figures_of r = (inventory.FACILITY_ID r, 10, 0, 10, 0)
          else if ITEM_NAME r = ''Oxytocin Injection'' \<and> inventory.FACILITY_ID r \<in> set ss
          then figures_of r = (inventory.FACILITY_ID r, 600, 0, 5, 595)
          else 100 \<le> OPENING_STOCK r \<and> OPENING_STOCK r \<le> 400
               \<and> 0 \<le> RECEIVED_QTY r \<and> RECEIVED_QTY r \<le> 30
               \<and> 5 \<le> ISSUED_QTY r \<and> ISSUED_QTY r \<le> 25"
  have new: "?Q (make_row w n fid item (scenario ?vs ss fid item (opn, rcv, iss)) lead_time)"
    if "100 \<le> opn" "opn \<le> 400" "0 \<le> rcv" "rcv \<le> 30" "5 \<le> iss" "iss \<le> 25"
    for n fid item opn rcv iss lead_time
    using that by (simp add: scenario_cases make_row_ids make_row_figures) (simp add: make_row_def)
  have "\<forall>r \<in> set (fst (facility_rows w ?vs ss df ([], 0))). ?Q r"
    by (rule facility_rows_inv) (use new in simp_all)
  then show ?thesis using r unfolding written_rows_generate[OF ss] by blast
qed

lemma written_rows_oxytocin:
  assumes ss: "collect_saviors w df (victim_ids_of df) [] = Inr ss"
    and fid: "fid \<in> facility.FACILITY_ID ` set df"
    and role: "fid \<in> set (victim_ids_of df) \<or> fid \<in> set ss"
  shows "\<exists>r \<in> set (written_rows (generate_inventory w (Some df))).
           inventory.FACILITY_ID r = fid \<and> ITEM_NAME r = ''Oxytocin Injection''"
proof -
  from fid obtain fac where fac: "fac \<in> set df" "facility.FACILITY_ID fac = fid" by auto
  show ?thesis
    unfolding written_rows_generate[OF ss]
    using facility_rows_has[of fac df "victim_ids_of df" ss w "[]" 0] fac role by simp
qed


lemma victim_crisis_record:
  assumes "vid \<in> set (victim_ids_of df)"
  shows "\<exists>r \<in> set (written_rows (generate_inventory w (Some df))).
           ITEM_NAME r = ''Oxytocin Injection'' \<and> figures_of r = (vid, 10, 0, 10, 0)"
proof -
  obtain ss where ss: "collect_saviors w df (victim_ids_of df) [] = Inr ss"
    using collect_saviors_total[OF victim_ids_known] by blast
  have "vid \<in> facility.FACILITY_ID ` set df" using assms victim_ids_known by blast
  from written_rows_oxytocin[OF ss this] assms obtain r where
    r: "r \<in> set (written_rows (generate_inventory w (Some df)))"
       "inventory.FACILITY_ID r = vid" "ITEM_NAME r = ''Oxytocin Injection''"
    by blast
  then have "figures_of r = (vid, 10, 0, 10, 0)"
    using written_rows_figures[OF ss r(1)] assms by simp
  then show ?thesis using r by blast
qed


text \<open>
  Claim C3. Every run of the generator comes to an end without raising, and every row it
  writes has CLOSING_STOCK equal to max(0, OPENING_STOCK + RECEIVED_QTY - ISSUED_QTY),
  which is never negative: whatever the facilities, the draws, and the figures the row
  was given (drawn, crisis or surplus).
\<close>

theorem closing_stock_is_clamped_balance:
  "(\<exists>rep. generate_inventory w input = Inr rep)
   \<and> (\<forall>r \<in> set (written_rows (generate_inventory w input)).
         CLOSING_STOCK r = max 0 (OPENING_STOCK r + RECEIVED_QTY r - ISSUED_QTY r)
         \<and> 0 \<le> CLOSING_STOCK r)
   \<and> CLOSING_STOCK (make_row w n fid item (opn, rcv, iss) lead_time) = max 0 (opn + rcv - iss)"
proof -
  let ?Q = "\<lambda>r. CLOSING_STOCK r = max 0 (OPENING_STOCK r + RECEIVED_QTY r - ISSUED_QTY r)
                \<and> 0 \<le> CLOSING_STOCK r"
  have rows: "\<forall>r \<in> set (written_rows (generate_inventory w input)). ?Q r"
  proof (cases input)
    case None
    then show ?thesis by (simp add: written_rows_none)
  next
    case (Some df)
    obtain ss where ss: "collect_saviors w df (victim_ids_of df) [] = Inr ss"
      using collect_saviors_total[OF victim_ids_known] by blast
    have "\<forall>r \<in> set (fst (facility_rows w (victim_ids_of df) ss df ([], 0))). ?Q r"
      by (rule facility_rows_inv) (simp_all add: make_row_def split: prod.splits)
    then show ?thesis unfolding Some written_rows_generate[OF ss] .
  qed
  have row: "CLOSING_STOCK (make_row w n fid item (opn, rcv, iss) lead_time)
               = max 0 (opn + rcv - iss)"
    by (simp add: make_row_def)
  show ?thesis using generate_inventory_total rows row by blast
qed

theorem closing_stock_is_clamped_balance_witness:
  "(\<exists>rep. generate_inventory demo_world (Some two_hospitals) = Inr rep)
   \<and> (\<exists>r \<in> set (written_rows (generate_inventory demo_world (Some two_hospitals))).
         figures_of r = (''A'', 10, 0, 10, 0)
         \<and> CLOSING_STOCK r = max 0 (OPENING_STOCK r + RECEIVED_QTY r - ISSUED_QTY r)
         \<and> 0 \<le> CLOSING_STOCK r)"
proof -
  have "''A'' \<in> set (victim_ids_of two_hospitals)"
    by (simp add: victim_ids_of_def two_hospitals_def hospital_def)
  from victim_crisis_record[OF this, of demo_world] obtain r where
    r: "r \<in> set (written_rows (generate_inventory demo_world (Some two_hospitals)))"
       "figures_of r = (''A'', 10, 0, 10, 0)"
    by blast
  note T = closing_stock_is_clamped_balance[where w = demo_world and input = "Some two_hospitals"]
  show ?thesis using T r by blast
qed




end
